theory Spec2Isabelle
  imports Main "HOL-Library.Word" "HOL-Library.Sublist"
begin

unbundle bit_operations_syntax

section \<open>Platform model\<close>

text \<open>
  The webhook is TypeScript running on Node (\<^verbatim>\<open>api/webhook.ts\<close>, first handler) and on the
  Edge runtime (second handler). What the repository calls from the platform is modelled
  here: byte buffers, the base64 codec of \<^verbatim>\<open>Buffer\<close> and \<^verbatim>\<open>btoa\<close>, HMAC-SHA256
  (\<^verbatim>\<open>createHmac('sha256', key)\<close>, \<^verbatim>\<open>crypto.subtle.sign('HMAC', ...)\<close>), \<^verbatim>\<open>JSON.stringify\<close>, the
  rendering of a number in a template literal, and \<^verbatim>\<open>Array.prototype.join\<close>.

  A JavaScript string is modelled by the list of bytes of its UTF-8 encoding
  (\<^typ>\<open>string\<close>): this is what both HMAC computations hash. A \<^verbatim>\<open>Buffer\<close> is a list of
  8-bit words.
\<close>

type_synonym buffer = "8 word list"
type_synonym w32 = "32 word"

datatype js_error = TypeError string | RangeError string | SyntaxError string | Error string

definition NL :: char where
  "NL = CHR 0x0A"

definition DQ :: char where
  "DQ = CHR 0x22"

definition BSL :: char where
  "BSL = CHR 0x5C"

definition utf8 :: "string \<Rightarrow> buffer" where
  "utf8 s = map (\<lambda>c. word_of_nat (of_char c)) s"

text \<open>\<^verbatim>\<open>xs.join(sep)\<close>\<close>

fun join :: "string \<Rightarrow> string list \<Rightarrow> string" where
  "join sep [] = []"
| "join sep [x] = x"
| "join sep (x # y # ys) = x @ sep @ join sep (y # ys)"

text \<open>\<^verbatim>\<open>s.split('\n')\<close>: the pieces between the separator characters; never empty.\<close>

fun split_on :: "char \<Rightarrow> string \<Rightarrow> string list" where
  "split_on d [] = [[]]"
| "split_on d (c # cs) =
     (if c = d then [] # split_on d cs
      else (case split_on d cs of [] \<Rightarrow> [[c]] | p # ps \<Rightarrow> (c # p) # ps))"

text \<open>
  \<^verbatim>\<open>s.trim()\<close> removes white space and line terminators at both ends; the formatters only
  ask whether anything is left. In the UTF-8 bytes of the model, the characters removed are
  the six ASCII ones and the encodings of U+00A0, U+1680, U+2000 to U+200A, U+2028, U+2029,
  U+202F, U+205F, U+3000 and U+FEFF.
\<close>

definition js_space :: "char \<Rightarrow> bool" where
  "js_space c = (c \<in> set [CHR 0x20, CHR 0x09, CHR 0x0A, CHR 0x0B, CHR 0x0C, CHR 0x0D])"

definition js_wide_spaces :: "string list" where
  "js_wide_spaces =
     [[CHR 0xC2, CHR 0xA0], [CHR 0xE1, CHR 0x9A, CHR 0x80],
      [CHR 0xE2, CHR 0x80, CHR 0x80], [CHR 0xE2, CHR 0x80, CHR 0x81],
      [CHR 0xE2, CHR 0x80, CHR 0x82], [CHR 0xE2, CHR 0x80, CHR 0x83],
      [CHR 0xE2, CHR 0x80, CHR 0x84], [CHR 0xE2, CHR 0x80, CHR 0x85],
      [CHR 0xE2, CHR 0x80, CHR 0x86], [CHR 0xE2, CHR 0x80, CHR 0x87],
      [CHR 0xE2, CHR 0x80, CHR 0x88], [CHR 0xE2, CHR 0x80, CHR 0x89],
      [CHR 0xE2, CHR 0x80, CHR 0x8A], [CHR 0xE2, CHR 0x80, CHR 0xA8],
      [CHR 0xE2, CHR 0x80, CHR 0xA9], [CHR 0xE2, CHR 0x80, CHR 0xAF],
      [CHR 0xE2, CHR 0x81, CHR 0x9F], [CHR 0xE3, CHR 0x80, CHR 0x80],
      [CHR 0xEF, CHR 0xBB, CHR 0xBF]]"

text \<open>
  \<open>strip_spaces seqs s\<close> removes the white space at the front of \<open>s\<close>, \<open>seqs\<close> being the
  byte sequences of the characters beyond ASCII; at the end of a string they are met in
  reverse.
\<close>

fun strip_spaces :: "string list \<Rightarrow> string \<Rightarrow> string" where
  "strip_spaces seqs [] = []"
| "strip_spaces seqs (c # cs) =
     (if js_space c then strip_spaces seqs cs
      else (case find (\<lambda>w. prefix w (c # cs)) seqs of
              Some w \<Rightarrow> strip_spaces seqs (drop (length w - 1) cs)
            | None \<Rightarrow> c # cs))"

definition trim :: "string \<Rightarrow> string" where
  "trim s = rev (strip_spaces (map rev js_wide_spaces) (rev (strip_spaces js_wide_spaces s)))"

text \<open>A non-negative integer in a template literal: its decimal digits.\<close>

definition digit_char :: "nat \<Rightarrow> char" where
  "digit_char d = ''0123456789'' ! (d mod 10)"

fun show_nat :: "nat \<Rightarrow> string" where
  "show_nat n = (if n < 10 then [digit_char n] else show_nat (n div 10) @ [digit_char (n mod 10)])"

declare show_nat.simps [simp del]

subsection \<open>Decoding UTF-8\<close>

text \<open>
  \<^verbatim>\<open>buf.toString('utf-8')\<close> decodes the bytes of a buffer into a string: a well-formed
  sequence becomes its character, and every ill-formed maximal subpart becomes U+FFFD (the
  decoder of the WHATWG Encoding standard). In the model a string is the bytes of its UTF-8
  encoding, so decoding keeps the well-formed sequences and puts \<^verbatim>\<open>EF BF BD\<close> for each
  replacement character. \<open>utf8_lead\<close> gives, for a lead byte, the number of bytes still
  needed and the range of the next byte.
\<close>

definition REPLACEMENT :: buffer where
  "REPLACEMENT = [0xEF, 0xBF, 0xBD]"

definition utf8_lead :: "8 word \<Rightarrow> (nat \<times> nat \<times> nat) option" where
  "utf8_lead b =
     (let n = unat b in
      if 0xC2 \<le> n \<and> n \<le> 0xDF then Some (1, 0x80, 0xBF)
      else if n = 0xE0 then Some (2, 0xA0, 0xBF)
      else if n = 0xED then Some (2, 0x80, 0x9F)
      else if 0xE1 \<le> n \<and> n \<le> 0xEF then Some (2, 0x80, 0xBF)
      else if n = 0xF0 then Some (3, 0x90, 0xBF)
      else if n = 0xF4 then Some (3, 0x80, 0x8F)
      else if 0xF1 \<le> n \<and> n \<le> 0xF3 then Some (3, 0x80, 0xBF)
      else None)"

fun utf8_scan :: "nat \<Rightarrow> buffer \<Rightarrow> nat \<Rightarrow> nat \<Rightarrow> buffer \<Rightarrow> buffer" where
  "utf8_scan needed seen lo hi [] = (if needed = 0 then [] else REPLACEMENT)"
| "utf8_scan needed seen lo hi (b # bs) =
     (if needed = 0 then
        (if unat b \<le> 0x7F then b # utf8_scan 0 [] 0x80 0xBF bs
         else (case utf8_lead b of
                 Some (n, l, h) \<Rightarrow> utf8_scan n [b] l h bs
               | None \<Rightarrow> REPLACEMENT @ utf8_scan 0 [] 0x80 0xBF bs))
      else if unat b < lo \<or> hi < unat b then REPLACEMENT @ utf8_scan 0 [] 0x80 0xBF (b # bs)
      else if needed = 1 then seen @ [b] @ utf8_scan 0 [] 0x80 0xBF bs
      else utf8_scan (needed - 1) (seen @ [b]) 0x80 0xBF bs)"

definition utf8_replace :: "buffer \<Rightarrow> buffer" where
  "utf8_replace b = utf8_scan 0 [] 0x80 0xBF b"

text \<open>\<^verbatim>\<open>buf.toString('utf-8')\<close>\<close>

definition buffer_to_string :: "buffer \<Rightarrow> string" where
  "buffer_to_string b = map (\<lambda>w. char_of (unat w)) (utf8_replace b)"

subsection \<open>JSON values and \<^verbatim>\<open>JSON.stringify\<close>\<close>

text \<open>
  A JSON value as JavaScript holds it. A number is represented by the text JavaScript prints
  for it (\<^verbatim>\<open>Number::toString\<close>, which is what \<^verbatim>\<open>JSON.stringify\<close> emits for a finite number:
  \<^verbatim>\<open>1\<close>, \<^verbatim>\<open>-2.5\<close>, \<^verbatim>\<open>1e+21\<close>). An object is the list of its properties in enumeration order.
\<close>

datatype json =
    JNull
  | JBool bool
  | JNum string
  | JStr string
  | JArr "json list"
  | JObj "(string \<times> json) list"

definition hex_digit :: "nat \<Rightarrow> char" where
  "hex_digit d = ''0123456789abcdef'' ! (d mod 16)"

definition json_escape :: "char \<Rightarrow> string" where
  "json_escape c =
     (if c = DQ then [BSL, DQ]
      else if c = BSL then [BSL, BSL]
      else if c = CHR 0x08 then [BSL, CHR ''b'']
      else if c = CHR 0x09 then [BSL, CHR ''t'']
      else if c = CHR 0x0A then [BSL, CHR ''n'']
      else if c = CHR 0x0C then [BSL, CHR ''f'']
      else if c = CHR 0x0D then [BSL, CHR ''r'']
      else if (of_char c :: nat) < 32
        then [BSL, CHR ''u'', CHR ''0'', CHR ''0'', hex_digit (of_char c div 16), hex_digit (of_char c)]
      else [c])"

definition json_quote :: "string \<Rightarrow> string" where
  "json_quote s = [DQ] @ concat (map json_escape s) @ [DQ]"

fun JSON_stringify :: "json \<Rightarrow> string" where
  "JSON_stringify JNull = ''null''"
| "JSON_stringify (JBool b) = (if b then ''true'' else ''false'')"
| "JSON_stringify (JNum printed) = printed"
| "JSON_stringify (JStr s) = json_quote s"
| "JSON_stringify (JArr vs) = ''['' @ join '','' (map JSON_stringify vs) @ '']''"
| "JSON_stringify (JObj kvs) =
     ''{'' @ join '','' (map (\<lambda>(k, v). json_quote k @ '':'' @ JSON_stringify v) kvs) @ ''}''"

subsection \<open>Base64\<close>

text \<open>
  Encoding (\<^verbatim>\<open>digest('base64')\<close>, \<^verbatim>\<open>btoa\<close>): the standard alphabet, padded with \<^verbatim>\<open>=\<close>.
\<close>

definition b64_char :: "8 word \<Rightarrow> char" where
  "b64_char v =
     (let n = unat (v AND 0x3F) in
      if n < 26 then char_of (n + 65)
      else if n < 52 then char_of (n + 71)
      else if n < 62 then char_of (n - 4)
      else if n = 62 then CHR ''+''
      else CHR ''/'')"

fun base64_encode :: "buffer \<Rightarrow> string" where
  "base64_encode [] = []"
| "base64_encode [a] =
     [b64_char (drop_bit 2 a), b64_char (push_bit 4 (a AND 3)), CHR ''='', CHR ''='']"
| "base64_encode [a, b] =
     [b64_char (drop_bit 2 a), b64_char (push_bit 4 (a AND 3) OR drop_bit 4 b),
      b64_char (push_bit 2 (b AND 15)), CHR ''='']"
| "base64_encode (a # b # c # rest) =
     [b64_char (drop_bit 2 a), b64_char (push_bit 4 (a AND 3) OR drop_bit 4 b),
      b64_char (push_bit 2 (b AND 15) OR drop_bit 6 c), b64_char (c AND 63)]
     @ base64_encode rest"

text \<open>
  Decoding (\<^verbatim>\<open>Buffer.from(s, 'base64')\<close>) never throws. Node's decoder accepts the standard
  and the URL-safe alphabet, skips every character outside them (white space included),
  stops at the first \<^verbatim>\<open>=\<close>, and drops the bits of an incomplete last byte.
\<close>

definition b64_value :: "char \<Rightarrow> 8 word option" where
  "b64_value c =
     (let n = (of_char c :: nat) in
      if 65 \<le> n \<and> n \<le> 90 then Some (word_of_nat (n - 65))
      else if 97 \<le> n \<and> n \<le> 122 then Some (word_of_nat (n - 71))
      else if 48 \<le> n \<and> n \<le> 57 then Some (word_of_nat (n + 4))
      else if c = CHR ''+'' \<or> c = CHR ''-'' then Some 62
      else if c = CHR ''/'' \<or> c = CHR ''_'' then Some 63
      else None)"

fun b64_groups :: "8 word list \<Rightarrow> buffer" where
  "b64_groups (a # b # c # d # rest) =
     [push_bit 2 a OR drop_bit 4 b, push_bit 4 (b AND 15) OR drop_bit 2 c, push_bit 6 (c AND 3) OR d]
     @ b64_groups rest"
| "b64_groups [a, b, c] = [push_bit 2 a OR drop_bit 4 b, push_bit 4 (b AND 15) OR drop_bit 2 c]"
| "b64_groups [a, b] = [push_bit 2 a OR drop_bit 4 b]"
| "b64_groups [a] = []"
| "b64_groups [] = []"

definition Buffer_from_base64 :: "string \<Rightarrow> buffer" where
  "Buffer_from_base64 s = b64_groups (List.map_filter b64_value (takeWhile (\<lambda>c. c \<noteq> CHR ''='') s))"

subsection \<open>SHA-256 and HMAC\<close>

text \<open>SHA-256 as in FIPS 180-4, on 32-bit words; HMAC as in RFC 2104, with the 64-byte block.\<close>

definition K256 :: "w32 list" where
  "K256 =
   [0x428A2F98, 0x71374491, 0xB5C0FBCF, 0xE9B5DBA5, 0x3956C25B, 0x59F111F1, 0x923F82A4, 0xAB1C5ED5,
    0xD807AA98, 0x12835B01, 0x243185BE, 0x550C7DC3, 0x72BE5D74, 0x80DEB1FE, 0x9BDC06A7, 0xC19BF174,
    0xE49B69C1, 0xEFBE4786, 0x0FC19DC6, 0x240CA1CC, 0x2DE92C6F, 0x4A7484AA, 0x5CB0A9DC, 0x76F988DA,
    0x983E5152, 0xA831C66D, 0xB00327C8, 0xBF597FC7, 0xC6E00BF3, 0xD5A79147, 0x06CA6351, 0x14292967,
    0x27B70A85, 0x2E1B2138, 0x4D2C6DFC, 0x53380D13, 0x650A7354, 0x766A0ABB, 0x81C2C92E, 0x92722C85,
    0xA2BFE8A1, 0xA81A664B, 0xC24B8B70, 0xC76C51A3, 0xD192E819, 0xD6990624, 0xF40E3585, 0x106AA070,
    0x19A4C116, 0x1E376C08, 0x2748774C, 0x34B0BCB5, 0x391C0CB3, 0x4ED8AA4A, 0x5B9CCA4F, 0x682E6FF3,
    0x748F82EE, 0x78A5636F, 0x84C87814, 0x8CC70208, 0x90BEFFFA, 0xA4506CEB, 0xBEF9A3F7, 0xC67178F2]"

definition H256 :: "w32 list" where
  "H256 = [0x6A09E667, 0xBB67AE85, 0x3C6EF372, 0xA54FF53A,
           0x510E527F, 0x9B05688C, 0x1F83D9AB, 0x5BE0CD19]"

definition be32 :: "buffer \<Rightarrow> w32" where
  "be32 bs = foldl (\<lambda>acc b. push_bit 8 acc OR ucast b) 0 bs"

definition bytes_of_w32 :: "w32 \<Rightarrow> buffer" where
  "bytes_of_w32 w = [ucast (drop_bit 24 w), ucast (drop_bit 16 w), ucast (drop_bit 8 w), ucast w]"

definition bytes_of_w64 :: "64 word \<Rightarrow> buffer" where
  "bytes_of_w64 w = map (\<lambda>i. ucast (drop_bit (8 * (7 - i)) w)) [0..<8]"

definition sha_pad :: "buffer \<Rightarrow> buffer" where
  "sha_pad m =
     m @ [0x80] @ replicate ((119 - length m mod 64) mod 64) 0
       @ bytes_of_w64 (word_of_nat (8 * length m))"

fun chunks :: "nat \<Rightarrow> 'a list \<Rightarrow> 'a list list" where
  "chunks 0 xs = []"
| "chunks (Suc n) [] = []"
| "chunks (Suc n) (x # xs) = (x # take n xs) # chunks (Suc n) (drop n xs)"

definition ssig0 :: "w32 \<Rightarrow> w32" where
  "ssig0 x = word_rotr 7 x XOR word_rotr 18 x XOR drop_bit 3 x"

definition ssig1 :: "w32 \<Rightarrow> w32" where
  "ssig1 x = word_rotr 17 x XOR word_rotr 19 x XOR drop_bit 10 x"

definition bsig0 :: "w32 \<Rightarrow> w32" where
  "bsig0 x = word_rotr 2 x XOR word_rotr 13 x XOR word_rotr 22 x"

definition bsig1 :: "w32 \<Rightarrow> w32" where
  "bsig1 x = word_rotr 6 x XOR word_rotr 11 x XOR word_rotr 25 x"

text \<open>The message schedule, produced from a window of the last sixteen words.\<close>

fun schedule :: "nat \<Rightarrow> w32 list \<Rightarrow> w32 list" where
  "schedule 0 w = []"
| "schedule (Suc n) w =
     hd w # schedule n (tl w @ [ssig1 (w ! 14) + w ! 9 + ssig0 (w ! 1) + w ! 0])"

fun round256 :: "w32 list \<Rightarrow> w32 \<times> w32 \<Rightarrow> w32 list" where
  "round256 [a, b, c, d, e, f, g, h] (k, w) =
     (let t1 = h + bsig1 e + ((e AND f) XOR (NOT e AND g)) + k + w;
          t2 = bsig0 a + ((a AND b) XOR (a AND c) XOR (b AND c))
      in [t1 + t2, a, b, c, d + t1, e, f, g])"
| "round256 s _ = s"

definition compress :: "w32 list \<Rightarrow> buffer \<Rightarrow> w32 list" where
  "compress hs block =
     map2 (+) hs (foldl round256 hs (zip K256 (schedule 64 (map be32 (chunks 4 block)))))"

definition sha256 :: "buffer \<Rightarrow> buffer" where
  "sha256 m = concat (map bytes_of_w32 (foldl compress H256 (chunks 64 (sha_pad m))))"

definition hmac_sha256 :: "buffer \<Rightarrow> buffer \<Rightarrow> buffer" where
  "hmac_sha256 key msg =
     (let k0 = (if length key > 64 then sha256 key else key);
          k = k0 @ replicate (64 - length k0) 0
      in sha256 (map (\<lambda>b. b XOR 0x5C) k @ sha256 (map (\<lambda>b. b XOR 0x36) k @ msg)))"

section \<open>\<^verbatim>\<open>lib/types.ts\<close>: the data model\<close>

text \<open>
  The interfaces of \<^verbatim>\<open>types.ts\<close>. An optional field (\<^verbatim>\<open>due?\<close>) is an option. The two
  formatters test \<^verbatim>\<open>task.labels\<close> and \<^verbatim>\<open>task.description\<close> before they use them, so
  these two fields are options as well. \<^verbatim>\<open>event_name\<close> is a string: both handlers test it
  against \<^verbatim>\<open>SUPPORTED_EVENTS\<close> and the formatters have a default branch.
\<close>

record todoist_due =
  date :: string
  timezone :: "string option"
  due_string :: "string option"
  lang :: "string option"
  is_recurring :: "bool option"
  datetime :: "string option"

record todoist_task =
  task_id :: string
  content :: string
  description :: "string option"
  project_id :: string
  section_id :: "string option"
  parent_id :: "string option"
  priority :: nat
  due :: "todoist_due option"
  labels :: "string list option"
  checked :: bool
  is_deleted :: "bool option"
  added_at :: "string option"
  completed_at :: "string option"
  task_user_id :: "string option"

record webhook_initiator =
  email :: "string option"
  full_name :: "string option"
  initiator_id :: "string option"

record webhook_payload =
  event_name :: string
  user_id :: string
  event_data :: todoist_task
  initiator :: "webhook_initiator option"
  version :: "string option"

text \<open>An outbound HTTP call and what comes back from it.\<close>

record http_request =
  url :: string
  http_method :: string
  req_headers :: "(string \<times> string) list"
  req_body :: string

record http_response =
  resp_status :: nat
  resp_text :: "js_error + string"

definition resp_ok :: "http_response \<Rightarrow> bool" where
  "resp_ok r = (200 \<le> resp_status r \<and> resp_status r \<le> 299)"

text \<open>
  What the runtime provides and the repository does not define:
  \<^item> \<open>JSON_parse\<close>: \<^verbatim>\<open>JSON.parse(body) as TodoistWebhookPayload\<close>, \<open>None\<close> when it throws;
  \<^item> \<open>Date_parse\<close>: the time value of \<^verbatim>\<open>new Date(s)\<close>, \<open>None\<close> for an invalid date (NaN);
  \<^item> \<open>Intl_format\<close>: \<^verbatim>\<open>toLocaleString('en-US', {weekday: 'short', ...})\<close> of a valid date;
  \<^item> \<open>Intl_format_default\<close>: \<^verbatim>\<open>toLocaleString()\<close> of a valid date;
  \<^item> \<open>fetch\<close>: the outbound call, \<open>Inl\<close> when the promise rejects (transport failure).
\<close>

record platform =
  JSON_parse :: "string \<Rightarrow> webhook_payload option"
  Date_parse :: "string \<Rightarrow> int option"
  Intl_format :: "int \<Rightarrow> string"
  Intl_format_default :: "int \<Rightarrow> string"
  fetch :: "http_request \<Rightarrow> js_error + http_response"

text \<open>
  \<^verbatim>\<open>Date.prototype.toLocaleString\<close> does not throw on an invalid date: it returns the
  string \<^verbatim>\<open>Invalid Date\<close>.
\<close>

definition Date_toLocaleString :: "(int \<Rightarrow> string) \<Rightarrow> int option \<Rightarrow> string" where
  "Date_toLocaleString fmt d = (case d of None \<Rightarrow> ''Invalid Date'' | Some t \<Rightarrow> fmt t)"

text \<open>A string or \<^verbatim>\<open>undefined\<close> in a condition, and in a template literal.\<close>

definition truthy :: "string option \<Rightarrow> bool" where
  "truthy v = (case v of None \<Rightarrow> False | Some s \<Rightarrow> s \<noteq> [])"

definition template :: "string option \<Rightarrow> string" where
  "template v = (case v of None \<Rightarrow> ''undefined'' | Some s \<Rightarrow> s)"

section \<open>\<^verbatim>\<open>lib/todoist.ts\<close>\<close>

definition TODOIST_HEADER :: string where
  "TODOIST_HEADER = ''x-todoist-hmac-sha256''"

text \<open>\<^verbatim>\<open>timingSafeEqual\<close> of Node throws when the buffers differ in length.\<close>

definition timingSafeEqual :: "buffer \<Rightarrow> buffer \<Rightarrow> js_error + bool" where
  "timingSafeEqual a b =
     (if length a \<noteq> length b
      then Inl (RangeError ''Input buffers must have the same byte length'')
      else Inr (a = b))"

text \<open>\<^verbatim>\<open>createHmac('sha256', clientSecret).update(rawBody).digest('base64')\<close>\<close>

definition hmac_base64 :: "string \<Rightarrow> string \<Rightarrow> string" where
  "hmac_base64 clientSecret rawBody = base64_encode (hmac_sha256 (utf8 clientSecret) (utf8 rawBody))"

text \<open>The body of the \<^verbatim>\<open>try\<close> block of \<^verbatim>\<open>verifyTodoistSignature\<close>.\<close>

definition verify_try :: "string \<Rightarrow> string \<Rightarrow> js_error + bool" where
  "verify_try signature expectedSignature =
     (let sigBuffer = Buffer_from_base64 signature;
          expectedBuffer = Buffer_from_base64 expectedSignature
      in if length sigBuffer \<noteq> length expectedBuffer then Inr False
         else timingSafeEqual sigBuffer expectedBuffer)"

definition verifyTodoistSignature :: "string \<Rightarrow> string option \<Rightarrow> string \<Rightarrow> bool" where
  "verifyTodoistSignature rawBody signature clientSecret =
     (case signature of
        None \<Rightarrow> False
      | Some sig \<Rightarrow>
          if sig = [] then False
          else (let expectedSignature = hmac_base64 clientSecret rawBody
                in case verify_try sig expectedSignature of
                     Inr b \<Rightarrow> b
                   | Inl e \<Rightarrow> False))"

text \<open>
  A header of Node is a string, a list of strings or absent. In \<^verbatim>\<open>a || b\<close> an absent
  header and the empty string are falsy, a list is truthy.
\<close>

datatype header_value = Single string | Multi "string list"

definition truthy_header :: "header_value option \<Rightarrow> bool" where
  "truthy_header v =
     (case v of None \<Rightarrow> False | Some (Single s) \<Rightarrow> s \<noteq> [] | Some (Multi vs) \<Rightarrow> True)"

definition js_or :: "header_value option \<Rightarrow> header_value option \<Rightarrow> header_value option" where
  "js_or a b = (if truthy_header a then a else b)"

definition getSignatureFromHeaders :: "(string \<Rightarrow> header_value option) \<Rightarrow> string option" where
  "getSignatureFromHeaders hs =
     (let headerValue =
            js_or (js_or (hs TODOIST_HEADER) (hs ''X-Todoist-Hmac-SHA256''))
              (hs ''X-TODOIST-HMAC-SHA256'')
      in case headerValue of
           None \<Rightarrow> None
         | Some (Single s) \<Rightarrow> Some s
         | Some (Multi vs) \<Rightarrow> (case vs of [] \<Rightarrow> None | v # _ \<Rightarrow> Some v))"

text \<open>\<^verbatim>\<open>labels[priority]\<close>: \<^verbatim>\<open>undefined\<close> outside 1..4.\<close>

definition getPriorityLabel :: "nat \<Rightarrow> string option" where
  "getPriorityLabel p = map_of [(4, ''Urgent''), (3, ''High''), (2, ''Medium''), (1, ''Normal'')] p"

section \<open>\<^verbatim>\<open>lib/capacities.ts\<close>\<close>

definition CAPACITIES_API_URL :: string where
  "CAPACITIES_API_URL = ''https://api.capacities.io/save-to-daily-note''"

text \<open>
  \<^verbatim>\<open>saveToDailyNote\<close> returns nothing or throws; the model also returns the outbound calls
  it made. \<open>daily_note_request\<close> is the request it builds: the body object and the
  argument of \<^verbatim>\<open>fetch\<close>.
\<close>

definition daily_note_request :: "string \<Rightarrow> string \<Rightarrow> string \<Rightarrow> http_request" where
  "daily_note_request mdText apiToken spaceId =
     (let body = JObj [(''spaceId'', JStr spaceId), (''mdText'', JStr mdText),
                       (''noTimeStamp'', JBool False)]
      in \<lparr>url = CAPACITIES_API_URL, http_method = ''POST'',
          req_headers = [(''Content-Type'', ''application/json''),
                         (''Authorization'', ''Bearer '' @ apiToken)],
          req_body = JSON_stringify body\<rparr>)"

definition saveToDailyNote ::
  "platform \<Rightarrow> string \<Rightarrow> string \<Rightarrow> string \<Rightarrow> (js_error + unit) \<times> http_request list" where
  "saveToDailyNote pf mdText apiToken spaceId =
     (let request = daily_note_request mdText apiToken spaceId
      in (case fetch pf request of
            Inl e \<Rightarrow> Inl e
          | Inr response \<Rightarrow>
              if \<not> resp_ok response then
                (case resp_text response of
                   Inl e \<Rightarrow> Inl e
                 | Inr errorText \<Rightarrow>
                     Inl (Error (''Capacities API error '' @ show_nat (resp_status response)
                                 @ '': '' @ errorText)))
              else Inr (),
          [request]))"

text \<open>
  \<^verbatim>\<open>formatDateTime\<close>: the \<^verbatim>\<open>try\<close> block builds the date and renders it; neither call
  throws, so the block ends with its value and the \<^verbatim>\<open>catch\<close> branch is the \<open>Inl\<close> case.
\<close>

definition formatDateTime :: "platform \<Rightarrow> string \<Rightarrow> string" where
  "formatDateTime pf isoString =
     (case (Inr (Date_toLocaleString (Intl_format pf) (Date_parse pf isoString)) :: js_error + string) of
        Inr s \<Rightarrow> s
      | Inl e \<Rightarrow> isoString)"

text \<open>The lines pushed after the \<^verbatim>\<open>switch\<close>: the metadata and the closing separator.\<close>

definition metadata_lines :: "platform \<Rightarrow> todoist_task \<Rightarrow> string list" where
  "metadata_lines pf task =
     [''''] @
     (if priority task > 1
      then [''- **Priority:** '' @ template (getPriorityLabel (priority task))] else []) @
     (case due task of
        None \<Rightarrow> []
      | Some d \<Rightarrow>
          (let dueStr = (case datetime d of
                           Some dt \<Rightarrow> if dt \<noteq> [] then formatDateTime pf dt else date d
                         | None \<Rightarrow> date d);
               recurringNote = (if is_recurring d = Some True then '' (recurring)'' else '''')
           in [''- **Due:** '' @ dueStr @ recurringNote])) @
     (case labels task of
        None \<Rightarrow> []
      | Some ls \<Rightarrow> if length ls > 0 then [''- **Labels:** '' @ join '', '' ls] else []) @
     (case description task of
        None \<Rightarrow> []
      | Some ds \<Rightarrow>
          if ds \<noteq> [] \<and> trim ds \<noteq> []
          then ['''', ''> '' @ join (NL # ''> '') (split_on NL ds)] else []) @
     ['''', ''---'', '''']"

definition formatTaskAsMarkdown :: "platform \<Rightarrow> todoist_task \<Rightarrow> string \<Rightarrow> string" where
  "formatTaskAsMarkdown pf task eventName =
     (if eventName = ''item:added'' then
        join [NL] ([''### New Task Added'', '''', ''**'' @ content task @ ''**'']
                   @ metadata_lines pf task)
      else if eventName = ''item:completed'' then
        join [NL] ([''### Task Completed'', '''', ''~~'' @ content task @ ''~~''] @
                   (case completed_at task of
                      Some c \<Rightarrow>
                        if c \<noteq> [] then ['''', ''- **Completed:** '' @ formatDateTime pf c] else []
                    | None \<Rightarrow> []))
          @ [NL, NL] @ ''---'' @ [NL]
      else if eventName = ''item:updated'' then
        join [NL] ([''### Task Updated'', '''', ''**'' @ content task @ ''**'']
                   @ metadata_lines pf task)
      else if eventName = ''item:uncompleted'' then
        join [NL] ([''### Task Reopened'', '''', ''**'' @ content task @ ''**'']
                   @ metadata_lines pf task)
      else if eventName = ''item:deleted'' then
        join [NL] [''### Task Deleted'', '''', ''~~'' @ content task @ ''~~'']
          @ [NL, NL] @ ''---'' @ [NL]
      else
        join [NL] ([''### Task Event: '' @ eventName, '''', ''**'' @ content task @ ''**'']
                   @ metadata_lines pf task))"

section \<open>\<^verbatim>\<open>api/webhook.ts\<close>: the Node handler\<close>

definition SUPPORTED_EVENTS :: "string list" where
  "SUPPORTED_EVENTS =
     [''item:added'', ''item:updated'', ''item:completed'', ''item:uncompleted'', ''item:deleted'']"

text \<open>
  \<^verbatim>\<open>req.body\<close> of a Vercel request is any JavaScript value: \<^verbatim>\<open>undefined\<close>, a
  \<^verbatim>\<open>Buffer\<close>, or a value the runtime has parsed (a string, an object, an array, a
  number, ...). The request is also a readable stream of chunks.
\<close>

datatype request_body = BodyUndefined | BodyBuffer buffer | BodyValue json

datatype chunk = StringChunk string | BufferChunk buffer

record vercel_request =
  req_method :: string
  headers :: "string \<Rightarrow> header_value option"
  body :: request_body
  stream :: "chunk list"

record response =
  status :: nat
  response_body :: string

record environment =
  TODOIST_CLIENT_SECRET :: "string option"
  CAPACITIES_API_TOKEN :: "string option"
  CAPACITIES_SPACE_ID :: "string option"


definition chunk_buffer :: "chunk \<Rightarrow> buffer" where
  "chunk_buffer c = (case c of StringChunk s \<Rightarrow> utf8 s | BufferChunk b \<Rightarrow> b)"

definition getRawBody :: "vercel_request \<Rightarrow> string" where
  "getRawBody req =
     (case body req of
        BodyValue (JStr s) \<Rightarrow> s
      | BodyBuffer b \<Rightarrow> buffer_to_string b
      | BodyValue (JObj kvs) \<Rightarrow> JSON_stringify (JObj kvs)
      | BodyValue (JArr vs) \<Rightarrow> JSON_stringify (JArr vs)
      | _ \<Rightarrow> buffer_to_string (concat (map chunk_buffer (stream req))))"

text \<open>\<^verbatim>\<open>res.status(code).json(obj)\<close> and \<^verbatim>\<open>new Response(JSON.stringify(obj), {status: code})\<close>\<close>

definition json_response :: "nat \<Rightarrow> json \<Rightarrow> response" where
  "json_response code obj = \<lparr>status = code, response_body = JSON_stringify obj\<rparr>"

text \<open>An environment variable in \<^verbatim>\<open>!v\<close>: absent and empty are both falsy.\<close>

definition env_value :: "string option \<Rightarrow> string" where
  "env_value v = (case v of None \<Rightarrow> [] | Some s \<Rightarrow> s)"

text \<open>The handler's answer, and the outbound calls it made.\<close>

definition handler :: "platform \<Rightarrow> environment \<Rightarrow> vercel_request \<Rightarrow> response \<times> http_request list" where
  "handler pf env req =
     (if req_method req \<noteq> ''POST'' then
        (json_response 405 (JObj [(''error'', JStr ''Method not allowed'')]), [])
      else
        (let clientSecret = env_value (TODOIST_CLIENT_SECRET env);
             capacitiesToken = env_value (CAPACITIES_API_TOKEN env);
             spaceId = env_value (CAPACITIES_SPACE_ID env)
         in if clientSecret = [] \<or> capacitiesToken = [] \<or> spaceId = [] then
              (json_response 500 (JObj [(''error'', JStr ''Server configuration error'')]), [])
            else
              (let rawBody = getRawBody req;
                   signature = getSignatureFromHeaders (headers req)
               in if \<not> verifyTodoistSignature rawBody signature clientSecret then
                    (json_response 401 (JObj [(''error'', JStr ''Invalid signature'')]), [])
                  else
                    (case JSON_parse pf rawBody of
                       None \<Rightarrow> (json_response 400 (JObj [(''error'', JStr ''Invalid payload'')]), [])
                     | Some payload \<Rightarrow>
                         if event_name payload \<notin> set SUPPORTED_EVENTS then
                           (json_response 200
                              (JObj [(''status'', JStr ''ignored''),
                                     (''event'', JStr (event_name payload))]), [])
                         else
                           (let markdown =
                                  formatTaskAsMarkdown pf (event_data payload) (event_name payload)
                            in case saveToDailyNote pf markdown capacitiesToken spaceId of
                                 (Inr u, calls) \<Rightarrow>
                                   (json_response 200
                                      (JObj [(''status'', JStr ''ok''),
                                             (''event'', JStr (event_name payload))]), calls)
                               | (Inl e, calls) \<Rightarrow>
                                   (json_response 500
                                      (JObj [(''error'', JStr ''Failed to save to Capacities'')]),
                                    calls))))))"

section \<open>\<^verbatim>\<open>api/webhook.ts\<close>: the Edge handler\<close>

text \<open>
  The second handler of the repository runs on the Edge runtime and carries its own copies
  of the verifier and of the formatter. \<^verbatim>\<open>request.text()\<close> is the body as received;
  \<^verbatim>\<open>request.headers.get\<close> looks a header up.
\<close>

record edge_request =
  edge_method :: string
  edge_url :: string
  headers_get :: "string \<Rightarrow> string option"
  body_text :: string

text \<open>
  \<^verbatim>\<open>verifySignature\<close>: HMAC-SHA256 by \<^verbatim>\<open>crypto.subtle\<close>, encoded with \<^verbatim>\<open>btoa\<close>, compared
  to the header as a string.
\<close>

definition verifySignature :: "string \<Rightarrow> string option \<Rightarrow> string \<Rightarrow> bool" where
  "verifySignature rawBody signature secret =
     (case signature of
        None \<Rightarrow> False
      | Some sig \<Rightarrow>
          if sig = [] then False
          else (let signatureBytes = hmac_sha256 (utf8 secret) (utf8 rawBody);
                    expected = base64_encode signatureBytes
                in expected = sig))"

text \<open>\<^verbatim>\<open>labels[priority] || 'Normal'\<close>\<close>

definition getPriorityLabel_edge :: "nat \<Rightarrow> string" where
  "getPriorityLabel_edge p =
     (case map_of [(4, ''Urgent''), (3, ''High''), (2, ''Medium''), (1, ''Normal'')] p of
        Some l \<Rightarrow> l
      | None \<Rightarrow> ''Normal'')"

definition formatTaskMarkdown :: "platform \<Rightarrow> todoist_task \<Rightarrow> string \<Rightarrow> string" where
  "formatTaskMarkdown pf task eventName =
     join [NL]
       ((if eventName = ''item:completed'' then
           [''### Task Completed'', '''', ''~~'' @ content task @ ''~~''] @
           (case completed_at task of
              Some c \<Rightarrow>
                if c \<noteq> []
                then ['''', ''- **Completed:** ''
                            @ Date_toLocaleString (Intl_format_default pf) (Date_parse pf c)]
                else []
            | None \<Rightarrow> [])
         else if eventName = ''item:added'' then
           [''### New Task Added'', '''', ''**'' @ content task @ ''**'']
         else if eventName = ''item:updated'' then
           [''### Task Updated'', '''', ''**'' @ content task @ ''**'']
         else
           [''### Task Event: '' @ eventName, '''', ''**'' @ content task @ ''**'']) @
        (if eventName \<noteq> ''item:completed'' then
           (if priority task > 1
            then [''- **Priority:** '' @ getPriorityLabel_edge (priority task)] else []) @
           (case due task of
              None \<Rightarrow> []
            | Some d \<Rightarrow>
                (let dueStr = (if truthy (datetime d) then template (datetime d) else date d)
                 in [''- **Due:** '' @ dueStr
                     @ (if is_recurring d = Some True then '' (recurring)'' else '''')])) @
           (case labels task of
              None \<Rightarrow> []
            | Some ls \<Rightarrow> if length ls > 0 then [''- **Labels:** '' @ join '', '' ls] else []) @
           (case description task of
              None \<Rightarrow> []
            | Some ds \<Rightarrow>
                if trim ds \<noteq> []
                then ['''', ''> '' @ join (NL # ''> '') (split_on NL ds)] else [])
         else []) @
        ['''', ''---'', ''''])"

definition handler_edge :: "platform \<Rightarrow> environment \<Rightarrow> edge_request \<Rightarrow> response \<times> http_request list" where
  "handler_edge pf env request =
     (if edge_method request \<noteq> ''POST'' then
        (json_response 405 (JObj [(''error'', JStr ''Method not allowed'')]), [])
      else
        (let clientSecret = env_value (TODOIST_CLIENT_SECRET env);
             capacitiesToken = env_value (CAPACITIES_API_TOKEN env);
             spaceId = env_value (CAPACITIES_SPACE_ID env)
         in if clientSecret = [] \<or> capacitiesToken = [] \<or> spaceId = [] then
              (json_response 500 (JObj [(''error'', JStr ''Server config error'')]), [])
            else
              (let rawBody = body_text request;
                   signature = headers_get request ''x-todoist-hmac-sha256'';
                   isValidSig = verifySignature rawBody signature clientSecret
               in case JSON_parse pf rawBody of
                    None \<Rightarrow> (json_response 400 (JObj [(''error'', JStr ''Invalid JSON'')]), [])
                  | Some payload \<Rightarrow>
                      if event_name payload \<notin> set SUPPORTED_EVENTS then
                        (json_response 200
                           (JObj [(''status'', JStr ''ignored''),
                                  (''event'', JStr (event_name payload))]), [])
                      else
                        (let markdown =
                               formatTaskMarkdown pf (event_data payload) (event_name payload);
                             call = \<lparr>url = ''https://api.capacities.io/save-to-daily-note'',
                                     http_method = ''POST'',
                                     req_headers = [(''Content-Type'', ''application/json''),
                                                    (''Authorization'', ''Bearer '' @ capacitiesToken)],
                                     req_body = JSON_stringify
                                       (JObj [(''spaceId'', JStr spaceId), (''mdText'', JStr markdown)])\<rparr>
                         in (case fetch pf call of
                               Inl e \<Rightarrow> json_response 500 (JObj [(''error'', JStr ''Failed to save'')])
                             | Inr res \<Rightarrow>
                                 (case resp_text res of
                                    Inl e \<Rightarrow>
                                      json_response 500 (JObj [(''error'', JStr ''Failed to save'')])
                                  | Inr responseText \<Rightarrow>
                                      if \<not> resp_ok res then
                                        json_response 500
                                          (JObj [(''error'', JStr ''Capacities API error''),
                                                 (''details'', JStr responseText)])
                                      else
                                        json_response 200
                                          (JObj [(''status'', JStr ''ok''),
                                                 (''event'', JStr (event_name payload))])),
                             [call])))))"

section \<open>Notions of the specification\<close>



text \<open>
  Valid base64 (RFC 4648, section 4): characters of the standard alphabet, padded with
  \<^verbatim>\<open>=\<close> to a multiple of four characters.
\<close>

definition b64_std_char :: "char \<Rightarrow> bool" where
  "b64_std_char c =
     (let n = (of_char c :: nat) in
      (65 \<le> n \<and> n \<le> 90) \<or> (97 \<le> n \<and> n \<le> 122) \<or> (48 \<le> n \<and> n \<le> 57) \<or> n = 43 \<or> n = 47)"

definition valid_base64 :: "string \<Rightarrow> bool" where
  "valid_base64 s =
     (length s mod 4 = 0 \<and>
      list_all b64_std_char (takeWhile (\<lambda>c. c \<noteq> CHR ''='') s) \<and>
      dropWhile (\<lambda>c. c \<noteq> CHR ''='') s \<in> set [[], ''='', ''==''])"

text \<open>
  Well-formed UTF-8 (the Unicode Standard, table 3-7): one byte up to \<^verbatim>\<open>7F\<close>, or a lead
  byte \<^verbatim>\<open>C2\<close> to \<^verbatim>\<open>F4\<close> with one, two or three continuation bytes, without overlong
  forms, surrogates, or code points above U+10FFFF.
\<close>

definition in_range :: "nat \<Rightarrow> nat \<Rightarrow> 8 word \<Rightarrow> bool" where
  "in_range lo hi b = (lo \<le> unat b \<and> unat b \<le> hi)"

fun well_formed_utf8 :: "buffer \<Rightarrow> bool" where
  "well_formed_utf8 [] = True"
| "well_formed_utf8 (b # bs) =
     (if unat b \<le> 0x7F then well_formed_utf8 bs
      else if in_range 0xC2 0xDF b then
        (case bs of
           c # r \<Rightarrow> in_range 0x80 0xBF c \<and> well_formed_utf8 r
         | _ \<Rightarrow> False)
      else if in_range 0xE0 0xEF b then
        (case bs of
           c # d # r \<Rightarrow>
             in_range (if unat b = 0xE0 then 0xA0 else 0x80) (if unat b = 0xED then 0x9F else 0xBF) c
             \<and> in_range 0x80 0xBF d \<and> well_formed_utf8 r
         | _ \<Rightarrow> False)
      else if in_range 0xF0 0xF4 b then
        (case bs of
           c # d # e # r \<Rightarrow>
             in_range (if unat b = 0xF0 then 0x90 else 0x80) (if unat b = 0xF4 then 0x8F else 0xBF) c
             \<and> in_range 0x80 0xBF d \<and> in_range 0x80 0xBF e \<and> well_formed_utf8 r
         | _ \<Rightarrow> False)
      else False)"

text \<open>The end of a block: a blank line, the separator line, a trailing blank line.\<close>

definition block_end :: string where
  "block_end = [NL, NL] @ ''---'' @ [NL]"

section \<open>Sample inputs\<close>

text \<open>The task of the specification's end-to-end scenario, and a runtime to run it on.\<close>

definition milk_task :: todoist_task where
  "milk_task =
     \<lparr>task_id = ''1'', content = ''Buy milk'', description = Some [], project_id = ''1'',
      section_id = None, parent_id = None, priority = 4, due = None,
      labels = Some [''errand''], checked = False, is_deleted = None, added_at = None,
      completed_at = None, task_user_id = None\<rparr>"

definition sample_payload :: "string \<Rightarrow> webhook_payload" where
  "sample_payload ev =
     \<lparr>event_name = ev, user_id = ''1'', event_data = milk_task, initiator = None,
      version = None\<rparr>"

text \<open>
  The bodies of two webhook calls for that task, an \<^verbatim>\<open>item:archived\<close> and an
  \<^verbatim>\<open>item:added\<close> event, as JSON text.
\<close>

definition milk_task_json :: json where
  "milk_task_json =
     JObj [(''id'', JStr ''1''), (''content'', JStr ''Buy milk''), (''description'', JStr []),
           (''project_id'', JStr ''1''), (''priority'', JNum ''4''),
           (''labels'', JArr [JStr ''errand'']), (''checked'', JBool False)]"

definition sample_body :: "string \<Rightarrow> string" where
  "sample_body ev =
     JSON_stringify
       (JObj [(''event_name'', JStr ev), (''user_id'', JStr ''1''), (''event_data'', milk_task_json)])"

definition archived_body :: string where
  "archived_body = sample_body ''item:archived''"

definition added_body :: string where
  "added_body = sample_body ''item:added''"

definition sample_platform :: platform where
  "sample_platform =
     \<lparr>JSON_parse = (\<lambda>s. if s = archived_body then Some (sample_payload ''item:archived'')
                          else if s = added_body then Some (sample_payload ''item:added'')
                          else None),
      Date_parse = (\<lambda>s. None),
      Intl_format = (\<lambda>t. ''Mon, Jan 1, 2024, 12:00 PM''),
      Intl_format_default = (\<lambda>t. ''1/1/2024, 12:00:00 PM''),
      fetch = (\<lambda>r. Inr \<lparr>resp_status = 200, resp_text = Inr []\<rparr>)\<rparr>"

definition sample_env :: environment where
  "sample_env =
     \<lparr>TODOIST_CLIENT_SECRET = Some ''secret'', CAPACITIES_API_TOKEN = Some ''token'',
      CAPACITIES_SPACE_ID = Some ''space''\<rparr>"

definition signed_request :: "string \<Rightarrow> vercel_request" where
  "signed_request b =
     \<lparr>req_method = ''POST'',
      headers = (\<lambda>h. if h = ''x-todoist-hmac-sha256'' then Some (Single (hmac_base64 ''secret'' b))
                      else None),
      body = BodyValue (JStr b), stream = []\<rparr>"

definition unsigned_edge_request :: "string \<Rightarrow> edge_request" where
  "unsigned_edge_request b =
     \<lparr>edge_method = ''POST'', edge_url = ''https://example.test/api/webhook'',
      headers_get = (\<lambda>h. None), body_text = b\<rparr>"

section \<open>Facts about the platform model\<close>

lemma chr_iff:
  "c = CHR ''+'' \<longleftrightarrow> (of_char c :: nat) = 43"
  "c = CHR ''-'' \<longleftrightarrow> (of_char c :: nat) = 45"
  "c = CHR ''/'' \<longleftrightarrow> (of_char c :: nat) = 47"
  "c = CHR ''_'' \<longleftrightarrow> (of_char c :: nat) = 95"
  "c = CHR ''='' \<longleftrightarrow> (of_char c :: nat) = 61"
  by (simp_all flip: of_char_eq_iff [where ?'a = nat])

lemma b64_value_nat:
  assumes "n < 64"
  shows "b64_value (if n < 26 then char_of (n + 65) else if n < 52 then char_of (n + 71)
      else if n < 62 then char_of (n - 4) else if n = 62 then CHR ''+'' else CHR ''/'')
    = Some (word_of_nat n)"
proof -
  consider "n < 62" | "n = 62" | "n = 63"
    using assms by arith
  then show ?thesis
    by cases (auto simp: b64_value_def Let_def chr_iff)
qed

lemma b64_value_char: "b64_value (b64_char v) = Some (v AND 0x3F)"
proof -
  have "unat (v AND 0x3F) < 64"
    by (rule order.strict_trans1 [OF word_and_le1 [unfolded word_le_nat_alt]]) simp
  then show ?thesis
    unfolding b64_char_def Let_def by (subst b64_value_nat) simp_all
qed

lemma b64_char_not_pad: "b64_char v \<noteq> CHR ''=''"
proof
  assume "b64_char v = CHR ''=''"
  then have "b64_value (b64_char v) = b64_value (CHR ''='')" by simp
  then show False by (simp add: b64_value_char) (simp add: b64_value_def)
qed

lemma lt8: "n < (8::nat) \<Longrightarrow> n \<in> {0, 1, 2, 3, 4, 5, 6, 7}"
  by auto

lemma bit8_high: "\<not> bit (b :: 8 word) (8 + n)"
  by (auto dest: bit_imp_le_length)

lemma mask_take_bit:
  "(x :: 8 word) AND 0x3F = take_bit 6 x"
  "(x :: 8 word) AND 3 = take_bit 2 x"
  "(x :: 8 word) AND 15 = take_bit 4 x"
  by (simp_all add: take_bit_eq_mask mask_eq_exp_minus_1)

lemma b64_byte1:
  "push_bit 2 (drop_bit 2 a AND 0x3F) OR drop_bit 4 ((push_bit 4 (a AND 3) OR drop_bit 4 b) AND 0x3F)
     = (a :: 8 word)"
  unfolding mask_take_bit
  apply (rule bit_word_eqI)
  subgoal for n
    using lt8 [of n]
    by (auto simp: bit_simps bit8_high numeral_2_eq_2 [symmetric] numeral_3_eq_3 [symmetric])
  done

lemma b64_byte2:
  "push_bit 4 (((push_bit 4 (a AND 3) OR drop_bit 4 b) AND 0x3F) AND 15)
     OR drop_bit 2 ((push_bit 2 (b AND 15) OR drop_bit 6 c) AND 0x3F) = (b :: 8 word)"
  unfolding mask_take_bit
  apply (rule bit_word_eqI)
  subgoal for n
    using lt8 [of n] by (auto simp: bit_simps bit8_high)
  done

lemma b64_byte3:
  "push_bit 6 (((push_bit 2 (b AND 15) OR drop_bit 6 c) AND 0x3F) AND 3) OR ((c AND 63) AND 0x3F)
     = (c :: 8 word)"
  unfolding mask_take_bit
  apply (rule bit_word_eqI)
  subgoal for n
    using lt8 [of n] by (auto simp: bit_simps bit8_high)
  done

lemma b64_byte1_last:
  "push_bit 2 (drop_bit 2 a AND 0x3F) OR drop_bit 4 (push_bit 4 (a AND 3) AND 0x3F) = (a :: 8 word)"
  using b64_byte1 [of a 0] by simp

lemma b64_byte2_last:
  "push_bit 4 (((push_bit 4 (a AND 3) OR drop_bit 4 b) AND 0x3F) AND 15)
     OR drop_bit 2 (push_bit 2 (b AND 15) AND 0x3F) = (b :: 8 word)"
  using b64_byte2 [of a b 0] by simp

text \<open>Decoding undoes encoding.\<close>

lemma base64_roundtrip: "Buffer_from_base64 (base64_encode bs) = bs"
proof (induction bs rule: base64_encode.induct)
  case 1
  show ?case by (simp add: Buffer_from_base64_def map_filter_simps)
next
  case (2 a)
  show ?case
    by (simp only: base64_encode.simps Buffer_from_base64_def takeWhile.simps b64_char_not_pad
        map_filter_simps b64_value_char option.case b64_groups.simps b64_byte1_last simp_thms
        if_True if_False)
next
  case (3 a b)
  show ?case
    by (simp only: base64_encode.simps Buffer_from_base64_def takeWhile.simps b64_char_not_pad
        map_filter_simps b64_value_char option.case b64_groups.simps b64_byte1 b64_byte2_last
        simp_thms if_True if_False)
next
  case (4 a b c rest)
  then show ?case
    by (simp only: base64_encode.simps Buffer_from_base64_def takeWhile.simps b64_char_not_pad
        append.simps map_filter_simps b64_value_char option.case b64_groups.simps b64_byte1
        b64_byte2 b64_byte3 simp_thms if_True if_False)
qed


lemma base64_encode_Nil_iff: "base64_encode bs = [] \<longleftrightarrow> bs = []"
  by (cases bs rule: base64_encode.cases) simp_all

text \<open>A digest has 32 bytes.\<close>

lemma length_round256: "length (round256 s kw) = length s"
  by (cases "(s, kw)" rule: round256.cases) (simp_all add: Let_def)

lemma length_foldl_round256: "length (foldl round256 s kws) = length s"
  by (induction kws arbitrary: s) (simp_all add: length_round256)

lemma length_compress: "length (compress hs block) = length hs"
  by (simp add: compress_def length_foldl_round256)

lemma length_foldl_compress: "length (foldl compress hs blocks) = length hs"
  by (induction blocks arbitrary: hs) (simp_all add: length_compress)

lemma length_concat_w32: "length (concat (map bytes_of_w32 ws)) = 4 * length ws"
  by (induction ws) (simp_all add: bytes_of_w32_def)

lemma length_sha256: "length (sha256 m) = 32"
  by (simp add: sha256_def length_concat_w32 length_foldl_compress H256_def)

lemma length_hmac_sha256: "length (hmac_sha256 key msg) = 32"
  by (simp add: hmac_sha256_def Let_def length_sha256)

lemma hmac_base64_not_Nil: "hmac_base64 S B \<noteq> []"
proof
  assume "hmac_base64 S B = []"
  then have "hmac_sha256 (utf8 S) (utf8 B) = []"
    by (simp add: hmac_base64_def base64_encode_Nil_iff)
  then have "length (hmac_sha256 (utf8 S) (utf8 B)) = 0"
    by simp
  then show False
    by (simp add: length_hmac_sha256)
qed

lemma decode_hmac_base64: "Buffer_from_base64 (hmac_base64 S B) = hmac_sha256 (utf8 S) (utf8 B)"
  by (simp add: hmac_base64_def base64_roundtrip)

text \<open>
  HMAC-SHA256 of the bodies \<^verbatim>\<open>{}\<close> and \<^verbatim>\<open>z}\<close> under the key \<^verbatim>\<open>secret\<close>, evaluated.
\<close>

lemma hmac_example:
  "hmac_sha256 (utf8 ''secret'') (utf8 ''{}'') =
     [119, 50, 89, 2, 202, 202, 129, 45, 194, 89, 115, 58, 172, 208, 70, 183,
      56, 23, 55, 44, 119, 123, 141, 149, 180, 2, 100, 116, 116, 81, 110, 19]"
  by code_simp



section \<open>The verifiers\<close>

lemma verify_try_Inr:
  "verify_try sig expected = Inr (Buffer_from_base64 sig = Buffer_from_base64 expected)"
  by (auto simp: verify_try_def timingSafeEqual_def Let_def)

lemma verifyTodoistSignature_iff:
  "verifyTodoistSignature B (Some sig) S
     \<longleftrightarrow> sig \<noteq> [] \<and> Buffer_from_base64 sig = hmac_sha256 (utf8 S) (utf8 B)"
  by (simp add: verifyTodoistSignature_def verify_try_Inr decode_hmac_base64)


section \<open>Single-bit mutations of a signature\<close>





























lemma masked_map: "\<forall>x\<in>set (map (take_bit 6) vs). take_bit 6 x = (x :: 8 word)"
  by simp




section \<open>Decoding well-formed UTF-8\<close>

lemma utf8_scan_ascii:
  "unat b \<le> 0x7F \<Longrightarrow> utf8_scan 0 seen lo hi (b # bs) = b # utf8_scan 0 [] 0x80 0xBF bs"
  by simp

lemma utf8_scan_lead:
  "\<not> unat b \<le> 0x7F \<Longrightarrow> utf8_lead b = Some (n, l, h)
     \<Longrightarrow> utf8_scan 0 seen lo hi (b # bs) = utf8_scan n [b] l h bs"
  by simp

lemma utf8_scan_last:
  "l \<le> unat c \<Longrightarrow> unat c \<le> h
     \<Longrightarrow> utf8_scan (Suc 0) seen l h (c # bs) = seen @ [c] @ utf8_scan 0 [] 0x80 0xBF bs"
  by simp

lemma utf8_scan_more:
  "l \<le> unat c \<Longrightarrow> unat c \<le> h
     \<Longrightarrow> utf8_scan (Suc (Suc n)) seen l h (c # bs) = utf8_scan (Suc n) (seen @ [c]) 0x80 0xBF bs"
  by simp

lemma utf8_lead_2: "in_range 0xC2 0xDF b \<Longrightarrow> utf8_lead b = Some (1, 0x80, 0xBF)"
  by (simp add: utf8_lead_def in_range_def)

lemma utf8_lead_3:
  "in_range 0xE0 0xEF b \<Longrightarrow>
     utf8_lead b = Some (2, if unat b = 0xE0 then 0xA0 else 0x80, if unat b = 0xED then 0x9F else 0xBF)"
  by (simp add: utf8_lead_def in_range_def)

lemma utf8_lead_4:
  "in_range 0xF0 0xF4 b \<Longrightarrow>
     utf8_lead b = Some (3, if unat b = 0xF0 then 0x90 else 0x80, if unat b = 0xF4 then 0x8F else 0xBF)"
  by (auto simp: utf8_lead_def in_range_def)

lemma utf8_replace_well_formed: "well_formed_utf8 b \<Longrightarrow> utf8_replace b = b"
  unfolding utf8_replace_def
proof (induction b rule: length_induct)
  case (1 xs)
  show ?case
  proof (cases xs)
    case Nil
    then show ?thesis by simp
  next
    case (Cons b bs)
    consider (one) "unat b \<le> 0x7F"
      | (two) "\<not> unat b \<le> 0x7F" "in_range 0xC2 0xDF b"
      | (three) "\<not> unat b \<le> 0x7F" "\<not> in_range 0xC2 0xDF b" "in_range 0xE0 0xEF b"
      | (four) "\<not> unat b \<le> 0x7F" "\<not> in_range 0xC2 0xDF b" "\<not> in_range 0xE0 0xEF b"
          "in_range 0xF0 0xF4 b"
      using "1.prems" Cons by (cases "unat b \<le> 0x7F"; cases "in_range 0xC2 0xDF b";
          cases "in_range 0xE0 0xEF b"; cases "in_range 0xF0 0xF4 b") simp_all
    then show ?thesis
    proof cases
      case one
      with "1.prems" Cons have "well_formed_utf8 bs" by simp
      with "1.IH" Cons have "utf8_scan 0 [] 0x80 0xBF bs = bs" by simp
      with one Cons show ?thesis by (simp only: utf8_scan_ascii)
    next
      case two
      with "1.prems" Cons obtain c r where bs: "bs = c # r" and c: "in_range 0x80 0xBF c"
        and r: "well_formed_utf8 r"
        by (cases bs) simp_all
      from "1.IH" r Cons bs have "utf8_scan 0 [] 0x80 0xBF r = r" by simp
      moreover have "utf8_scan 0 [] 0x80 0xBF (b # c # r) = [b] @ [c] @ utf8_scan 0 [] 0x80 0xBF r"
        using c by (simp only: utf8_scan_lead [OF two(1) utf8_lead_2 [OF two(2)]] One_nat_def)
          (simp add: in_range_def)
      ultimately show ?thesis using Cons bs by simp
    next
      case three
      let ?l = "if unat b = 0xE0 then 0xA0 else (0x80::nat)"
      let ?h = "if unat b = 0xED then 0x9F else (0xBF::nat)"
      from three "1.prems" Cons obtain c d r where bs: "bs = c # d # r"
        and c: "in_range ?l ?h c" and d: "in_range 0x80 0xBF d" and r: "well_formed_utf8 r"
        by (cases bs; cases "tl bs") simp_all
      from "1.IH" r Cons bs have "utf8_scan 0 [] 0x80 0xBF r = r" by simp
      moreover have "utf8_scan 0 [] 0x80 0xBF (b # c # d # r)
          = ([b] @ [c]) @ [d] @ utf8_scan 0 [] 0x80 0xBF r"
      proof -
        have "utf8_scan 0 [] 0x80 0xBF (b # c # d # r) = utf8_scan 2 [b] ?l ?h (c # d # r)"
          by (rule utf8_scan_lead [OF three(1) utf8_lead_3 [OF three(3)]])
        also have "\<dots> = utf8_scan (Suc 0) ([b] @ [c]) 0x80 0xBF (d # r)"
          using c unfolding in_range_def numeral_2_eq_2 by (intro utf8_scan_more) simp_all
        also have "\<dots> = ([b] @ [c]) @ [d] @ utf8_scan 0 [] 0x80 0xBF r"
          using d unfolding in_range_def by (intro utf8_scan_last) simp_all
        finally show ?thesis .
      qed
      ultimately show ?thesis using Cons bs by simp
    next
      case four
      let ?l = "if unat b = 0xF0 then 0x90 else (0x80::nat)"
      let ?h = "if unat b = 0xF4 then 0x8F else (0xBF::nat)"
      from four "1.prems" Cons obtain c d e r where bs: "bs = c # d # e # r"
        and c: "in_range ?l ?h c" and d: "in_range 0x80 0xBF d" and e: "in_range 0x80 0xBF e"
        and r: "well_formed_utf8 r"
        by (cases bs; cases "tl bs"; cases "tl (tl bs)") simp_all
      from "1.IH" r Cons bs have "utf8_scan 0 [] 0x80 0xBF r = r" by simp
      moreover have "utf8_scan 0 [] 0x80 0xBF (b # c # d # e # r)
          = (([b] @ [c]) @ [d]) @ [e] @ utf8_scan 0 [] 0x80 0xBF r"
      proof -
        have "utf8_scan 0 [] 0x80 0xBF (b # c # d # e # r) = utf8_scan 3 [b] ?l ?h (c # d # e # r)"
          by (rule utf8_scan_lead [OF four(1) utf8_lead_4 [OF four(4)]])
        also have "\<dots> = utf8_scan (Suc (Suc 0)) ([b] @ [c]) 0x80 0xBF (d # e # r)"
          using c unfolding in_range_def numeral_3_eq_3 by (intro utf8_scan_more) simp_all
        also have "\<dots> = utf8_scan (Suc 0) (([b] @ [c]) @ [d]) 0x80 0xBF (e # r)"
          using d unfolding in_range_def by (intro utf8_scan_more) simp_all
        also have "\<dots> = (([b] @ [c]) @ [d]) @ [e] @ utf8_scan 0 [] 0x80 0xBF r"
          using e unfolding in_range_def by (intro utf8_scan_last) simp_all
        finally show ?thesis .
      qed
      ultimately show ?thesis using Cons bs by simp
    qed
  qed
qed

lemma utf8_char_of_unat: "utf8 (map (\<lambda>w. char_of (unat w)) b) = b"
proof -
  have "word_of_nat (of_char (char_of (unat w))) = w" for w :: "8 word"
  proof -
    have "unat w < 256"
      using unsigned_less [of w, where ?'a = nat] by simp
    then show ?thesis
      by (simp add: of_char_of)
  qed
  then show ?thesis
    by (simp add: utf8_def o_def map_idI)
qed

lemma utf8_buffer_to_string: "utf8 (buffer_to_string b) = utf8_replace b"
  by (simp add: buffer_to_string_def utf8_char_of_unat)

section \<open>Signature verification\<close>






text \<open>
  C3, as stated, fails: the signature of the body \<^verbatim>\<open>{}\<close> under the key \<^verbatim>\<open>secret\<close> with a
  space after its fourth character is not valid base64 (the signature itself is), and \<^verbatim>\<open>verifyTodoistSignature\<close>
  accepts it, because the decoder skips the space.
\<close>

theorem C3_invalid_base64_accepted:
  "valid_base64 ''dzJZAsrKgS3CWXM6rNBGtzgXNyx3e42VtAJkdHRRbhM=''
   \<and> \<not> valid_base64 ''dzJZ AsrKgS3CWXM6rNBGtzgXNyx3e42VtAJkdHRRbhM=''
   \<and> verifyTodoistSignature ''{}'' (Some ''dzJZ AsrKgS3CWXM6rNBGtzgXNyx3e42VtAJkdHRRbhM='') ''secret''"
proof (intro conjI)
  show "valid_base64 ''dzJZAsrKgS3CWXM6rNBGtzgXNyx3e42VtAJkdHRRbhM=''"
    by code_simp
  show "\<not> valid_base64 ''dzJZ AsrKgS3CWXM6rNBGtzgXNyx3e42VtAJkdHRRbhM=''"
    by code_simp
  have "Buffer_from_base64 ''dzJZ AsrKgS3CWXM6rNBGtzgXNyx3e42VtAJkdHRRbhM=''
      = [119, 50, 89, 2, 202, 202, 129, 45, 194, 89, 115, 58, 172, 208, 70, 183,
         56, 23, 55, 44, 119, 123, 141, 149, 180, 2, 100, 116, 116, 81, 110, 19]"
    by code_simp
  then show "verifyTodoistSignature ''{}''
      (Some ''dzJZ AsrKgS3CWXM6rNBGtzgXNyx3e42VtAJkdHRRbhM='') ''secret''"
    by (simp add: verifyTodoistSignature_iff hmac_example)
qed

text \<open>
  C3, amended. \<^verbatim>\<open>verifyTodoistSignature\<close> is total and never throws to its caller: the
  \<^verbatim>\<open>try\<close> block always ends with a boolean. It returns false when the signature header
  is absent or empty, and when the decoded signature's length differs from the decoded
  expected digest's length. A signature that is not valid base64 is not rejected for
  that: it is decoded leniently, and accepted only if the decoded bytes are the digest.
\<close>

theorem C3_verify_total_and_false:
  "(\<exists>b. verify_try sig expected = Inr b)
   \<and> \<not> verifyTodoistSignature B None S
   \<and> \<not> verifyTodoistSignature B (Some []) S
   \<and> (length (Buffer_from_base64 sig) \<noteq> length (Buffer_from_base64 (hmac_base64 S B))
        \<longrightarrow> \<not> verifyTodoistSignature B (Some sig) S)
   \<and> (verifyTodoistSignature B (Some sig) S
        \<longrightarrow> Buffer_from_base64 sig = hmac_sha256 (utf8 S) (utf8 B))"
proof (intro conjI)
  show "\<exists>b. verify_try sig expected = Inr b"
    by (simp add: verify_try_Inr)
  show "\<not> verifyTodoistSignature B None S"
    by (simp add: verifyTodoistSignature_def)
  show "\<not> verifyTodoistSignature B (Some []) S"
    by (simp add: verifyTodoistSignature_def)
  show "length (Buffer_from_base64 sig) \<noteq> length (Buffer_from_base64 (hmac_base64 S B))
      \<longrightarrow> \<not> verifyTodoistSignature B (Some sig) S"
    by (auto simp: verifyTodoistSignature_iff decode_hmac_base64)
  show "verifyTodoistSignature B (Some sig) S
      \<longrightarrow> Buffer_from_base64 sig = hmac_sha256 (utf8 S) (utf8 B)"
    by (simp add: verifyTodoistSignature_iff)
qed

text \<open>
  Witness for C3: \<^verbatim>\<open>AAAA\<close> decodes to three bytes, the expected digest has 32, and the
  signature is rejected; the signature of the body is accepted and decodes to the digest.
\<close>

theorem C3_verify_total_and_false_witness:
  "length (Buffer_from_base64 ''AAAA'') \<noteq> length (Buffer_from_base64 (hmac_base64 ''secret'' ''{}''))
   \<and> \<not> verifyTodoistSignature ''{}'' (Some ''AAAA'') ''secret''
   \<and> verifyTodoistSignature ''{}'' (Some (hmac_base64 ''secret'' ''{}'')) ''secret''
   \<and> Buffer_from_base64 (hmac_base64 ''secret'' ''{}'') = hmac_sha256 (utf8 ''secret'') (utf8 ''{}'')"
proof -
  have three: "length (Buffer_from_base64 ''AAAA'') = 3"
    by code_simp
  have differ: "length (Buffer_from_base64 ''AAAA'')
      \<noteq> length (Buffer_from_base64 (hmac_base64 ''secret'' ''{}''))"
    by (simp add: three decode_hmac_base64 length_hmac_sha256)
  have accepted: "verifyTodoistSignature ''{}'' (Some (hmac_base64 ''secret'' ''{}'')) ''secret''"
    by (simp add: verifyTodoistSignature_iff hmac_base64_not_Nil decode_hmac_base64)
  from C3_verify_total_and_false [of "''AAAA''" "''''" "''{}''" "''secret''"] differ
  have "\<not> verifyTodoistSignature ''{}'' (Some ''AAAA'') ''secret''"
    by blast
  moreover from C3_verify_total_and_false [of "hmac_base64 ''secret'' ''{}''" "''''" "''{}''" "''secret''"]
    accepted
  have "Buffer_from_base64 (hmac_base64 ''secret'' ''{}'') = hmac_sha256 (utf8 ''secret'') (utf8 ''{}'')"
    by blast
  ultimately show ?thesis
    using differ accepted by blast
qed

section \<open>The formatters\<close>

lemma join_block_end: "ls \<noteq> [] \<Longrightarrow> join [NL] (ls @ ['''', ''---'', '''']) = join [NL] ls @ block_end"
  by (induction "[NL]" ls rule: join.induct) (simp_all add: block_end_def)

lemma join_title:
  "join [NL] (h # '''' # t # ls) = h @ [NL, NL] @ join [NL] (t # ls)"
  by simp

lemma join_Cons_prefix: "prefix x (join sep (x # ys))"
  by (cases ys) simp_all

lemma suffix_if: "suffix e a \<Longrightarrow> suffix e b \<Longrightarrow> suffix e (if c then a else b)"
  by simp

lemma metadata_lines_end: "\<exists>m. metadata_lines pf task = m @ ['''', ''---'', '''']"
proof -
  have "suffix ['''', ''---'', ''''] (metadata_lines pf task)"
    unfolding metadata_lines_def by (intro suffix_appendI) simp
  then show ?thesis
    by (auto simp: suffix_def)
qed

lemma suffix_with_metadata:
  "suffix block_end (join [NL] ([h, e, t] @ metadata_lines pf task))"
proof -
  obtain m where m: "metadata_lines pf task = m @ ['''', ''---'', '''']"
    using metadata_lines_end by blast
  have "join [NL] ([h, e, t] @ metadata_lines pf task) = join [NL] (([h, e, t] @ m) @ ['''', ''---'', ''''])"
    by (simp add: m)
  also have "\<dots> = join [NL] ([h, e, t] @ m) @ block_end"
    by (rule join_block_end) simp
  finally show ?thesis
    by (simp add: suffix_def)
qed

lemma suffix_early_return: "suffix block_end (xs @ [NL, NL] @ ''---'' @ [NL])"
  by (simp add: block_end_def suffix_def)

lemma formatTaskAsMarkdown_deleted:
  "formatTaskAsMarkdown pf task ''item:deleted''
     = ''### Task Deleted'' @ [NL, NL] @ ''~~'' @ content task @ ''~~'' @ block_end"
  by (simp add: formatTaskAsMarkdown_def block_end_def)

text \<open>
  C5 fails on the Edge handler's formatter: \<^verbatim>\<open>formatTaskMarkdown\<close> has no branch for
  \<^verbatim>\<open>item:deleted\<close>. Every deleted task gets the generic heading and its title in bold, and
  for the task \<^verbatim>\<open>{content: "Buy milk", priority: 4, labels: ["errand"]}\<close> the metadata lines
  are emitted; \<^verbatim>\<open>formatTaskAsMarkdown\<close> formats the same task as the claim says.
\<close>

theorem C5_edge_formatter_deleted:
  "prefix (''### Task Event: item:deleted'' @ [NL, NL] @ ''**'' @ content task @ ''**'')
     (formatTaskMarkdown pf task ''item:deleted'')
   \<and> formatTaskMarkdown pf milk_task ''item:deleted''
       = ''### Task Event: item:deleted'' @ [NL, NL] @ ''**Buy milk**'' @ [NL]
         @ ''- **Priority:** Urgent'' @ [NL] @ ''- **Labels:** errand'' @ block_end
   \<and> formatTaskAsMarkdown pf milk_task ''item:deleted''
       = ''### Task Deleted'' @ [NL, NL] @ ''~~Buy milk~~'' @ block_end"
proof (intro conjI)
  obtain rest where "formatTaskMarkdown pf task ''item:deleted''
      = join [NL] (''### Task Event: item:deleted'' # '''' # (''**'' @ content task @ ''**'') # rest)"
    unfolding formatTaskMarkdown_def by (simp del: join.simps)
  then have "formatTaskMarkdown pf task ''item:deleted''
      = ''### Task Event: item:deleted'' @ [NL, NL] @ join [NL] ((''**'' @ content task @ ''**'') # rest)"
    by (simp only: join_title)
  moreover have "prefix (''**'' @ content task @ ''**'') (join [NL] ((''**'' @ content task @ ''**'') # rest))"
    by (rule join_Cons_prefix)
  ultimately show "prefix (''### Task Event: item:deleted'' @ [NL, NL] @ ''**'' @ content task @ ''**'')
     (formatTaskMarkdown pf task ''item:deleted'')"
    by (simp only: same_prefix_prefix)
  show "formatTaskMarkdown pf milk_task ''item:deleted''
       = ''### Task Event: item:deleted'' @ [NL, NL] @ ''**Buy milk**'' @ [NL]
         @ ''- **Priority:** Urgent'' @ [NL] @ ''- **Labels:** errand'' @ block_end"
    by (simp add: formatTaskMarkdown_def milk_task_def getPriorityLabel_edge_def trim_def
        block_end_def)
  show "formatTaskAsMarkdown pf milk_task ''item:deleted''
       = ''### Task Deleted'' @ [NL, NL] @ ''~~Buy milk~~'' @ block_end"
    by (simp add: formatTaskAsMarkdown_deleted milk_task_def)
qed

text \<open>
  C6 fails on the code: \<^verbatim>\<open>formatDateTime\<close> returns what \<^verbatim>\<open>toLocaleString\<close> returns, and for
  a string that is not a timestamp that is \<^verbatim>\<open>Invalid Date\<close>, not the input. It never throws.
\<close>

theorem C6_formatDateTime_value:
  "formatDateTime pf isoString
     = (case Date_parse pf isoString of None \<Rightarrow> ''Invalid Date'' | Some t \<Rightarrow> Intl_format pf t)"
  by (simp add: formatDateTime_def Date_toLocaleString_def)

text \<open>
  C7. For every task, whatever its priority, due specification, labels and description,
  both formatters turn kind Completed into the heading, the struck-through title, a
  completion-time line when the completion timestamp is present (and not empty), and the
  end of the block; the four metadata fields do not influence the result.
\<close>

theorem C7_completed_has_no_metadata:
  "formatTaskAsMarkdown pf task ''item:completed''
     = ''### Task Completed'' @ [NL, NL] @ ''~~'' @ content task @ ''~~''
       @ (case completed_at task of
            Some c \<Rightarrow> if c \<noteq> [] then [NL, NL] @ ''- **Completed:** '' @ formatDateTime pf c else []
          | None \<Rightarrow> [])
       @ block_end
   \<and> formatTaskMarkdown pf task ''item:completed''
     = ''### Task Completed'' @ [NL, NL] @ ''~~'' @ content task @ ''~~''
       @ (case completed_at task of
            Some c \<Rightarrow>
              if c \<noteq> []
              then [NL, NL] @ ''- **Completed:** ''
                   @ Date_toLocaleString (Intl_format_default pf) (Date_parse pf c)
              else []
          | None \<Rightarrow> [])
       @ block_end
   \<and> formatTaskAsMarkdown pf (task\<lparr>priority := p, due := d, labels := ls, description := ds\<rparr>)
         ''item:completed''
     = formatTaskAsMarkdown pf task ''item:completed''
   \<and> formatTaskMarkdown pf (task\<lparr>priority := p, due := d, labels := ls, description := ds\<rparr>)
         ''item:completed''
     = formatTaskMarkdown pf task ''item:completed''"
proof (intro conjI)
  show "formatTaskAsMarkdown pf task ''item:completed''
     = ''### Task Completed'' @ [NL, NL] @ ''~~'' @ content task @ ''~~''
       @ (case completed_at task of
            Some c \<Rightarrow> if c \<noteq> [] then [NL, NL] @ ''- **Completed:** '' @ formatDateTime pf c else []
          | None \<Rightarrow> [])
       @ block_end"
    by (cases "completed_at task") (simp_all add: formatTaskAsMarkdown_def block_end_def)
  show "formatTaskMarkdown pf task ''item:completed''
     = ''### Task Completed'' @ [NL, NL] @ ''~~'' @ content task @ ''~~''
       @ (case completed_at task of
            Some c \<Rightarrow>
              if c \<noteq> []
              then [NL, NL] @ ''- **Completed:** ''
                   @ Date_toLocaleString (Intl_format_default pf) (Date_parse pf c)
              else []
          | None \<Rightarrow> [])
       @ block_end"
    by (cases "completed_at task") (simp_all add: formatTaskMarkdown_def block_end_def)
  show "formatTaskAsMarkdown pf (task\<lparr>priority := p, due := d, labels := ls, description := ds\<rparr>)
         ''item:completed''
     = formatTaskAsMarkdown pf task ''item:completed''"
    by (simp add: formatTaskAsMarkdown_def)
  show "formatTaskMarkdown pf (task\<lparr>priority := p, due := d, labels := ls, description := ds\<rparr>)
         ''item:completed''
     = formatTaskMarkdown pf task ''item:completed''"
    by (simp add: formatTaskMarkdown_def)
qed

text \<open>
  C8. For every task and every event kind (any string), the block returned by either
  formatter ends with a blank line, the separator line and a trailing blank line.
\<close>

theorem C8_block_ends_with_separator:
  "suffix block_end (formatTaskAsMarkdown pf task eventName)
   \<and> suffix block_end (formatTaskMarkdown pf task eventName)"
proof
  show "suffix block_end (formatTaskAsMarkdown pf task eventName)"
    unfolding formatTaskAsMarkdown_def
    by (intro suffix_if suffix_with_metadata suffix_early_return)
next
  define heading where "heading =
    (if eventName = ''item:completed'' then
       [''### Task Completed'', '''', ''~~'' @ content task @ ''~~''] @
       (case completed_at task of
          Some c \<Rightarrow>
            if c \<noteq> []
            then ['''', ''- **Completed:** ''
                        @ Date_toLocaleString (Intl_format_default pf) (Date_parse pf c)]
            else []
        | None \<Rightarrow> [])
     else if eventName = ''item:added'' then
       [''### New Task Added'', '''', ''**'' @ content task @ ''**'']
     else if eventName = ''item:updated'' then
       [''### Task Updated'', '''', ''**'' @ content task @ ''**'']
     else
       [''### Task Event: '' @ eventName, '''', ''**'' @ content task @ ''**''])"
  have nonempty: "heading \<noteq> []"
    by (simp add: heading_def)
  obtain m where "formatTaskMarkdown pf task eventName = join [NL] ((heading @ m) @ ['''', ''---'', ''''])"
    unfolding formatTaskMarkdown_def heading_def [symmetric] by (metis append.assoc)
  moreover have "join [NL] ((heading @ m) @ ['''', ''---'', '''']) = join [NL] (heading @ m) @ block_end"
    by (rule join_block_end) (simp add: nonempty)
  ultimately show "suffix block_end (formatTaskMarkdown pf task eventName)"
    by (simp add: suffix_def)
qed

section \<open>The forwarder\<close>

lemma show_nat_503: "show_nat 503 = ''503''"
  by code_simp

text \<open>
  C10, as stated, fails: when \<^verbatim>\<open>fetch\<close> itself rejects (no connection), there is no
  upstream response and no status, and \<^verbatim>\<open>saveToDailyNote\<close> throws all the same: the
  rejection propagates to the caller.
\<close>

theorem C10_transport_failure_throws:
  "saveToDailyNote (sample_platform\<lparr>fetch := (\<lambda>r. Inl (TypeError ''fetch failed''))\<rparr>)
     ''note'' ''token'' ''space''
   = (Inl (TypeError ''fetch failed''), [daily_note_request ''note'' ''token'' ''space''])"
  by (simp add: saveToDailyNote_def)

text \<open>
  C10, amended. \<^verbatim>\<open>saveToDailyNote\<close> makes exactly one outbound call, a POST to the
  daily-note endpoint whose JSON body carries \<^verbatim>\<open>noTimeStamp: false\<close>. When the call yields
  a response: if the status is ok it returns normally with no value; if the status is not
  ok (and the response text can be read) it throws an error whose message is
  \<^verbatim>\<open>Capacities API error <status>: <text>\<close>. When the call itself fails, or the text of a
  response that is not ok cannot be read, that failure is thrown.
\<close>

theorem C10_saveToDailyNote:
  "snd (saveToDailyNote pf mdText apiToken spaceId) = [daily_note_request mdText apiToken spaceId]
   \<and> req_body (daily_note_request mdText apiToken spaceId)
       = JSON_stringify (JObj [(''spaceId'', JStr spaceId), (''mdText'', JStr mdText),
                               (''noTimeStamp'', JBool False)])
   \<and> (fetch pf (daily_note_request mdText apiToken spaceId) = Inr r \<and> resp_ok r
        \<longrightarrow> fst (saveToDailyNote pf mdText apiToken spaceId) = Inr ())
   \<and> (fetch pf (daily_note_request mdText apiToken spaceId) = Inr r \<and> \<not> resp_ok r
          \<and> resp_text r = Inr errorText
        \<longrightarrow> fst (saveToDailyNote pf mdText apiToken spaceId)
            = Inl (Error (''Capacities API error '' @ show_nat (resp_status r) @ '': '' @ errorText)))
   \<and> (fetch pf (daily_note_request mdText apiToken spaceId) = Inr r \<and> \<not> resp_ok r
          \<and> resp_text r = Inl e
        \<longrightarrow> fst (saveToDailyNote pf mdText apiToken spaceId) = Inl e)
   \<and> (fetch pf (daily_note_request mdText apiToken spaceId) = Inl e
        \<longrightarrow> fst (saveToDailyNote pf mdText apiToken spaceId) = Inl e)"
proof -
  have "req_body (daily_note_request mdText apiToken spaceId)
       = JSON_stringify (JObj [(''spaceId'', JStr spaceId), (''mdText'', JStr mdText),
                               (''noTimeStamp'', JBool False)])"
    by (simp add: daily_note_request_def Let_def)
  then show ?thesis
    by (simp add: saveToDailyNote_def Let_def)
qed

text \<open>
  Witness for C10: an upstream that answers 503 with the text \<^verbatim>\<open>Service Unavailable\<close>, one
  that answers 200, one whose 503 response cannot be read, and one that cannot be reached.
\<close>

theorem C10_saveToDailyNote_witness:
  "\<not> resp_ok \<lparr>resp_status = 503, resp_text = Inr ''Service Unavailable''\<rparr>
   \<and> fst (saveToDailyNote
        (sample_platform\<lparr>fetch := (\<lambda>r. Inr \<lparr>resp_status = 503, resp_text = Inr ''Service Unavailable''\<rparr>)\<rparr>)
        ''note'' ''token'' ''space'')
     = Inl (Error ''Capacities API error 503: Service Unavailable'')
   \<and> resp_ok \<lparr>resp_status = 200, resp_text = Inr []\<rparr>
   \<and> fst (saveToDailyNote sample_platform ''note'' ''token'' ''space'') = Inr ()
   \<and> fst (saveToDailyNote
        (sample_platform\<lparr>fetch := (\<lambda>r. Inr \<lparr>resp_status = 503, resp_text = Inl (TypeError ''terminated'')\<rparr>)\<rparr>)
        ''note'' ''token'' ''space'')
     = Inl (TypeError ''terminated'')
   \<and> fst (saveToDailyNote (sample_platform\<lparr>fetch := (\<lambda>r. Inl (TypeError ''fetch failed''))\<rparr>)
        ''note'' ''token'' ''space'')
     = Inl (TypeError ''fetch failed'')"
proof -
  let ?down = "\<lparr>resp_status = 503, resp_text = Inr ''Service Unavailable''\<rparr>"
  let ?up = "\<lparr>resp_status = 200, resp_text = (Inr [] :: js_error + string)\<rparr>"
  let ?cut = "\<lparr>resp_status = 503, resp_text = (Inl (TypeError ''terminated'') :: js_error + string)\<rparr>"
  have down: "\<not> resp_ok ?down" and up: "resp_ok ?up" and cut: "\<not> resp_ok ?cut"
    by (simp_all add: resp_ok_def)
  note a = C10_saveToDailyNote [of "sample_platform\<lparr>fetch := (\<lambda>r. Inr ?down)\<rparr>"
      "''note''" "''token''" "''space''" ?down "''Service Unavailable''" "TypeError []"]
  note b = C10_saveToDailyNote [of sample_platform
      "''note''" "''token''" "''space''" ?up "[]" "TypeError []"]
  note c = C10_saveToDailyNote [of "sample_platform\<lparr>fetch := (\<lambda>r. Inr ?cut)\<rparr>"
      "''note''" "''token''" "''space''" ?cut "[]" "TypeError ''terminated''"]
  note d = C10_saveToDailyNote [of "sample_platform\<lparr>fetch := (\<lambda>r. Inl (TypeError ''fetch failed''))\<rparr>"
      "''note''" "''token''" "''space''" ?up "[]" "TypeError ''fetch failed''"]
  have "fst (saveToDailyNote (sample_platform\<lparr>fetch := (\<lambda>r. Inr ?down)\<rparr>) ''note'' ''token'' ''space'')
      = Inl (Error ''Capacities API error 503: Service Unavailable'')"
    using a down by (simp add: show_nat_503)
  moreover have "fst (saveToDailyNote sample_platform ''note'' ''token'' ''space'') = Inr ()"
    using b up by (simp add: sample_platform_def)
  moreover have "fst (saveToDailyNote (sample_platform\<lparr>fetch := (\<lambda>r. Inr ?cut)\<rparr>) ''note'' ''token'' ''space'')
      = Inl (TypeError ''terminated'')"
    using c cut by simp
  moreover have "fst (saveToDailyNote (sample_platform\<lparr>fetch := (\<lambda>r. Inl (TypeError ''fetch failed''))\<rparr>)
        ''note'' ''token'' ''space'') = Inl (TypeError ''fetch failed'')"
    using d by simp
  ultimately show ?thesis
    using down up by blast
qed

section \<open>The handlers\<close>

lemma status_json_response [simp]: "status (json_response code obj) = code"
  by (simp add: json_response_def)

lemma handler_rejects_bad_signature:
  assumes "req_method req = ''POST''"
    and "env_value (TODOIST_CLIENT_SECRET env) \<noteq> []"
    and "env_value (CAPACITIES_API_TOKEN env) \<noteq> []"
    and "env_value (CAPACITIES_SPACE_ID env) \<noteq> []"
    and "\<not> verifyTodoistSignature (getRawBody req) (getSignatureFromHeaders (headers req))
           (env_value (TODOIST_CLIENT_SECRET env))"
  shows "handler pf env req = (json_response 401 (JObj [(''error'', JStr ''Invalid signature'')]), [])"
  using assms by (simp add: handler_def Let_def)

lemma handler_status_401_iff:
  assumes "req_method req = ''POST''"
    and "env_value (TODOIST_CLIENT_SECRET env) \<noteq> []"
    and "env_value (CAPACITIES_API_TOKEN env) \<noteq> []"
    and "env_value (CAPACITIES_SPACE_ID env) \<noteq> []"
  shows "status (fst (handler pf env req)) = 401
     \<longleftrightarrow> \<not> verifyTodoistSignature (getRawBody req) (getSignatureFromHeaders (headers req))
           (env_value (TODOIST_CLIENT_SECRET env))"
  using assms
  by (auto simp: handler_def Let_def split: option.splits prod.splits sum.splits)

lemma signed_request_verified:
  "verifyTodoistSignature (getRawBody (signed_request b))
     (getSignatureFromHeaders (headers (signed_request b))) ''secret''"
  by (simp add: signed_request_def getRawBody_def getSignatureFromHeaders_def TODOIST_HEADER_def
      js_or_def truthy_header_def hmac_base64_not_Nil verifyTodoistSignature_iff decode_hmac_base64)

lemma sample_bodies_differ: "added_body \<noteq> archived_body"
  by code_simp

lemma sample_platform_parses:
  "JSON_parse sample_platform archived_body = Some (sample_payload ''item:archived'')"
  "JSON_parse sample_platform added_body = Some (sample_payload ''item:added'')"
  by (simp_all add: sample_platform_def sample_bodies_differ)

text \<open>
  C1 fails on the Edge handler: it computes \<^verbatim>\<open>isValidSig\<close> and never tests it (the test is
  commented out, "TEMPORARY: Skip signature verification for debugging"). A POST whose
  signature fails verification and whose body is a supported event is formatted and
  forwarded: the answer is not 401 and one outbound call is made.
\<close>

theorem C1_edge_handler_skips_verification:
  assumes "edge_method request = ''POST''"
    and "env_value (TODOIST_CLIENT_SECRET env) \<noteq> []"
    and "env_value (CAPACITIES_API_TOKEN env) \<noteq> []"
    and "env_value (CAPACITIES_SPACE_ID env) \<noteq> []"
    and "\<not> verifySignature (body_text request) (headers_get request ''x-todoist-hmac-sha256'')
           (env_value (TODOIST_CLIENT_SECRET env))"
    and "JSON_parse pf (body_text request) = Some payload"
    and "event_name payload \<in> set SUPPORTED_EVENTS"
  shows "status (fst (handler_edge pf env request)) \<noteq> 401
     \<and> length (snd (handler_edge pf env request)) = 1"
  using assms
  by (auto simp: handler_edge_def Let_def split: sum.splits)

text \<open>
  Witness for C1: a POST without a signature header whose body is an \<^verbatim>\<open>item:added\<close> event,
  with the configuration present and an upstream that answers 200: the Edge handler
  answers 200 and makes the outbound call.
\<close>

theorem C1_edge_handler_skips_verification_witness:
  "\<not> verifySignature (body_text (unsigned_edge_request added_body))
        (headers_get (unsigned_edge_request added_body) ''x-todoist-hmac-sha256'')
        (env_value (TODOIST_CLIENT_SECRET sample_env))
   \<and> status (fst (handler_edge sample_platform sample_env (unsigned_edge_request added_body))) = 200
   \<and> status (fst (handler_edge sample_platform sample_env (unsigned_edge_request added_body))) \<noteq> 401
   \<and> length (snd (handler_edge sample_platform sample_env (unsigned_edge_request added_body))) = 1"
proof -
  have unsigned: "\<not> verifySignature (body_text (unsigned_edge_request added_body))
        (headers_get (unsigned_edge_request added_body) ''x-todoist-hmac-sha256'')
        (env_value (TODOIST_CLIENT_SECRET sample_env))"
    by (simp add: unsigned_edge_request_def verifySignature_def)
  have parsed: "JSON_parse sample_platform (body_text (unsigned_edge_request added_body))
      = Some (sample_payload ''item:added'')"
    by (simp add: sample_platform_parses unsigned_edge_request_def)
  have ok: "status (fst (handler_edge sample_platform sample_env (unsigned_edge_request added_body))) = 200"
    by (simp add: handler_edge_def Let_def parsed)
      (simp add: sample_platform_def sample_env_def unsigned_edge_request_def env_value_def
        sample_payload_def SUPPORTED_EVENTS_def resp_ok_def)
  from C1_edge_handler_skips_verification [of "unsigned_edge_request added_body" sample_env
      sample_platform "sample_payload ''item:added''", OF _ _ _ _ unsigned parsed]
  have "status (fst (handler_edge sample_platform sample_env (unsigned_edge_request added_body))) \<noteq> 401
     \<and> length (snd (handler_edge sample_platform sample_env (unsigned_edge_request added_body))) = 1"
    by (simp add: unsigned_edge_request_def sample_env_def env_value_def sample_payload_def
        SUPPORTED_EVENTS_def)
  with unsigned ok show ?thesis
    by blast
qed

text \<open>
  C4, as stated, fails in two ways. When the runtime has already parsed the body
  (\<^verbatim>\<open>req.body\<close> is an object), \<^verbatim>\<open>getRawBody\<close> returns \<^verbatim>\<open>JSON.stringify(req.body)\<close>: for the
  object parsed from the body \<^verbatim>\<open>{ "a": 1 }\<close> this is \<^verbatim>\<open>{"a":1}\<close>, which is not the body that
  was received. And a body that is not well-formed UTF-8 is decoded with replacement
  characters before it is hashed: of the three bytes 7B FF 7D the handler hashes the five
  bytes 7B EF BF BD 7D.
\<close>

theorem C4_reserialized_body:
  "getRawBody \<lparr>req_method = ''POST'', headers = (\<lambda>h. None),
               body = BodyValue (JObj [(''a'', JNum ''1'')]), stream = []\<rparr>
     = ''{'' @ [DQ] @ ''a'' @ [DQ] @ '':1}''
   \<and> ''{'' @ [DQ] @ ''a'' @ [DQ] @ '':1}'' \<noteq> ''{ '' @ [DQ] @ ''a'' @ [DQ] @ '': 1 }''
   \<and> utf8 (getRawBody \<lparr>req_method = ''POST'', headers = (\<lambda>h. None),
                     body = BodyBuffer [0x7B, 0xFF, 0x7D], stream = []\<rparr>)
     = [0x7B, 0xEF, 0xBF, 0xBD, 0x7D]
   \<and> [0x7B, 0xEF, 0xBF, 0xBD, 0x7D] \<noteq> ([0x7B, 0xFF, 0x7D] :: buffer)"
proof (intro conjI)
  show "getRawBody \<lparr>req_method = ''POST'', headers = (\<lambda>h. None),
               body = BodyValue (JObj [(''a'', JNum ''1'')]), stream = []\<rparr>
     = ''{'' @ [DQ] @ ''a'' @ [DQ] @ '':1}''"
    by (simp add: getRawBody_def json_quote_def json_escape_def DQ_def BSL_def)
  show "''{'' @ [DQ] @ ''a'' @ [DQ] @ '':1}'' \<noteq> ''{ '' @ [DQ] @ ''a'' @ [DQ] @ '': 1 }''"
    by simp
  have "utf8_replace [0x7B, 0xFF, 0x7D] = [0x7B, 0xEF, 0xBF, 0xBD, 0x7D]"
    by code_simp
  then show "utf8 (getRawBody \<lparr>req_method = ''POST'', headers = (\<lambda>h. None),
                     body = BodyBuffer [0x7B, 0xFF, 0x7D], stream = []\<rparr>)
     = [0x7B, 0xEF, 0xBF, 0xBD, 0x7D]"
    by (simp add: getRawBody_def utf8_buffer_to_string)
  show "[0x7B, 0xEF, 0xBF, 0xBD, 0x7D] \<noteq> ([0x7B, 0xFF, 0x7D] :: buffer)"
    by simp
qed

text \<open>
  C4, amended. When the runtime hands the body over as a string, the Node handler hashes
  that string. When it hands the body over as a buffer, or leaves it in the unread stream,
  the handler hashes the bytes received with every ill-formed UTF-8 sequence replaced by
  U+FFFD; so when the bytes received are well-formed UTF-8, the bytes hashed are exactly
  the bytes received. When the runtime has already parsed the body into an object or an
  array, the handler hashes \<^verbatim>\<open>JSON.stringify\<close> of it instead. In every case the handler
  (POST, configuration present) answers 401 exactly when \<^verbatim>\<open>verifyTodoistSignature\<close> rejects
  that raw body.
\<close>

theorem C4_raw_body_is_hashed:
  "(body req = BodyValue (JStr s) \<longrightarrow> getRawBody req = s)
   \<and> (body req = BodyBuffer b \<and> well_formed_utf8 b \<longrightarrow> utf8 (getRawBody req) = b)
   \<and> (body req = BodyUndefined \<and> well_formed_utf8 (concat (map chunk_buffer (stream req)))
        \<longrightarrow> utf8 (getRawBody req) = concat (map chunk_buffer (stream req)))
   \<and> (body req = BodyBuffer b \<longrightarrow> utf8 (getRawBody req) = utf8_replace b)
   \<and> (body req = BodyUndefined
        \<longrightarrow> utf8 (getRawBody req) = utf8_replace (concat (map chunk_buffer (stream req))))
   \<and> (body req = BodyValue (JObj kvs) \<longrightarrow> getRawBody req = JSON_stringify (JObj kvs))
   \<and> (body req = BodyValue (JArr vs) \<longrightarrow> getRawBody req = JSON_stringify (JArr vs))
   \<and> (req_method req = ''POST'' \<and> env_value (TODOIST_CLIENT_SECRET env) \<noteq> []
        \<and> env_value (CAPACITIES_API_TOKEN env) \<noteq> [] \<and> env_value (CAPACITIES_SPACE_ID env) \<noteq> []
      \<longrightarrow> (status (fst (handler pf env req)) = 401)
          = (\<not> verifyTodoistSignature (getRawBody req) (getSignatureFromHeaders (headers req))
                 (env_value (TODOIST_CLIENT_SECRET env))))"
proof (intro conjI impI)
  assume "body req = BodyValue (JStr s)"
  then show "getRawBody req = s"
    by (simp add: getRawBody_def)
next
  assume "body req = BodyBuffer b \<and> well_formed_utf8 b"
  then show "utf8 (getRawBody req) = b"
    by (simp add: getRawBody_def utf8_buffer_to_string utf8_replace_well_formed)
next
  assume "body req = BodyUndefined \<and> well_formed_utf8 (concat (map chunk_buffer (stream req)))"
  then show "utf8 (getRawBody req) = concat (map chunk_buffer (stream req))"
    by (simp add: getRawBody_def utf8_buffer_to_string utf8_replace_well_formed)
next
  assume "body req = BodyBuffer b"
  then show "utf8 (getRawBody req) = utf8_replace b"
    by (simp add: getRawBody_def utf8_buffer_to_string)
next
  assume "body req = BodyUndefined"
  then show "utf8 (getRawBody req) = utf8_replace (concat (map chunk_buffer (stream req)))"
    by (simp add: getRawBody_def utf8_buffer_to_string)
next
  assume "body req = BodyValue (JObj kvs)"
  then show "getRawBody req = JSON_stringify (JObj kvs)"
    by (simp add: getRawBody_def)
next
  assume "body req = BodyValue (JArr vs)"
  then show "getRawBody req = JSON_stringify (JArr vs)"
    by (simp add: getRawBody_def)
next
  assume "req_method req = ''POST'' \<and> env_value (TODOIST_CLIENT_SECRET env) \<noteq> []
        \<and> env_value (CAPACITIES_API_TOKEN env) \<noteq> [] \<and> env_value (CAPACITIES_SPACE_ID env) \<noteq> []"
  then show "(status (fst (handler pf env req)) = 401)
          = (\<not> verifyTodoistSignature (getRawBody req) (getSignatureFromHeaders (headers req))
                 (env_value (TODOIST_CLIENT_SECRET env)))"
    by (simp add: handler_status_401_iff)
qed

text \<open>
  Witness for C4: the body \<^verbatim>\<open>{}\<close> as a string, as a buffer, and as a stream of the two
  chunks \<^verbatim>\<open>{\<close> and \<^verbatim>\<open>}\<close>; the ill-formed buffer 7B FF 7D; the parsed object \<^verbatim>\<open>{"a":1}\<close> and
  the parsed array \<^verbatim>\<open>[true]\<close>; and a signed POST, which is not answered with 401.
\<close>

theorem C4_raw_body_is_hashed_witness:
  "getRawBody \<lparr>req_method = ''POST'', headers = (\<lambda>h. None), body = BodyValue (JStr ''{}''),
               stream = []\<rparr> = ''{}''
   \<and> well_formed_utf8 [0x7B, 0x7D]
   \<and> utf8 (getRawBody \<lparr>req_method = ''POST'', headers = (\<lambda>h. None), body = BodyBuffer [0x7B, 0x7D],
                     stream = []\<rparr>) = [0x7B, 0x7D]
   \<and> utf8 (getRawBody \<lparr>req_method = ''POST'', headers = (\<lambda>h. None), body = BodyUndefined,
                     stream = [StringChunk ''{'', BufferChunk [0x7D]]\<rparr>) = [0x7B, 0x7D]
   \<and> utf8 (getRawBody \<lparr>req_method = ''POST'', headers = (\<lambda>h. None),
                     body = BodyBuffer [0x7B, 0xFF, 0x7D], stream = []\<rparr>)
     = utf8_replace [0x7B, 0xFF, 0x7D]
   \<and> getRawBody \<lparr>req_method = ''POST'', headers = (\<lambda>h. None),
                 body = BodyValue (JObj [(''a'', JNum ''1'')]), stream = []\<rparr>
     = ''{'' @ [DQ] @ ''a'' @ [DQ] @ '':1}''
   \<and> getRawBody \<lparr>req_method = ''POST'', headers = (\<lambda>h. None),
                 body = BodyValue (JArr [JBool True]), stream = []\<rparr>
     = ''[true]''
   \<and> verifyTodoistSignature (getRawBody (signed_request ''{}''))
        (getSignatureFromHeaders (headers (signed_request ''{}''))) ''secret''
   \<and> status (fst (handler sample_platform sample_env (signed_request ''{}''))) \<noteq> 401"
proof -
  let ?r1 = "\<lparr>req_method = ''POST'', headers = (\<lambda>h. None), body = BodyValue (JStr ''{}''),
               stream = []\<rparr>"
  let ?r2 = "\<lparr>req_method = ''POST'', headers = (\<lambda>h. None), body = BodyBuffer [0x7B, 0x7D],
               stream = []\<rparr>"
  let ?r3 = "\<lparr>req_method = ''POST'', headers = (\<lambda>h. None), body = BodyUndefined,
               stream = [StringChunk ''{'', BufferChunk [0x7D]]\<rparr>"
  let ?r4 = "\<lparr>req_method = ''POST'', headers = (\<lambda>h. None),
               body = BodyBuffer [0x7B, 0xFF, 0x7D], stream = []\<rparr>"
  let ?r5 = "\<lparr>req_method = ''POST'', headers = (\<lambda>h. None),
               body = BodyValue (JObj [(''a'', JNum ''1'')]), stream = []\<rparr>"
  let ?r6 = "\<lparr>req_method = ''POST'', headers = (\<lambda>h. None),
               body = BodyValue (JArr [JBool True]), stream = []\<rparr>"
  have wf: "well_formed_utf8 [0x7B, 0x7D]"
    by simp
  have "getRawBody ?r1 = ''{}''"
    using C4_raw_body_is_hashed [of ?r1 "''{}''"] by simp
  moreover have "utf8 (getRawBody ?r2) = [0x7B, 0x7D]"
    using C4_raw_body_is_hashed [of ?r2 _ "[0x7B, 0x7D]"] wf by simp
  moreover have "utf8 (getRawBody ?r3) = [0x7B, 0x7D]"
    using C4_raw_body_is_hashed [of ?r3] wf by (simp add: chunk_buffer_def utf8_def)
  moreover have "utf8 (getRawBody ?r4) = utf8_replace [0x7B, 0xFF, 0x7D]"
    using C4_raw_body_is_hashed [of ?r4 _ "[0x7B, 0xFF, 0x7D]"] by simp
  moreover have "getRawBody ?r5 = ''{'' @ [DQ] @ ''a'' @ [DQ] @ '':1}''"
    using C4_raw_body_is_hashed [of ?r5 _ _ "[(''a'', JNum ''1'')]"]
    by (simp add: json_quote_def json_escape_def DQ_def BSL_def)
  moreover have "getRawBody ?r6 = ''[true]''"
    using C4_raw_body_is_hashed [of ?r6 _ _ _ "[JBool True]"] by simp
  moreover have "status (fst (handler sample_platform sample_env (signed_request ''{}''))) \<noteq> 401"
    using C4_raw_body_is_hashed [of "signed_request ''{}''" _ _ _ _ sample_env sample_platform]
      signed_request_verified [of "''{}''"]
    by (simp add: sample_env_def env_value_def signed_request_def)
  ultimately show ?thesis
    using signed_request_verified [of "''{}''"] wf by blast
qed

text \<open>
  C9. A POST with the configuration present, whose signature verifies and whose body parses
  to an event whose kind is not in the supported set, is answered by the Node handler with
  HTTP 200 and the body \<^verbatim>\<open>{"status":"ignored","event":<kind>}\<close>, and no outbound call is
  made. The Edge handler answers the same way to every such POST whose body parses.
\<close>

theorem C9_unsupported_event_ignored:
  "(req_method req = ''POST'' \<and> env_value (TODOIST_CLIENT_SECRET env) \<noteq> []
      \<and> env_value (CAPACITIES_API_TOKEN env) \<noteq> [] \<and> env_value (CAPACITIES_SPACE_ID env) \<noteq> []
      \<and> verifyTodoistSignature (getRawBody req) (getSignatureFromHeaders (headers req))
           (env_value (TODOIST_CLIENT_SECRET env))
      \<and> JSON_parse pf (getRawBody req) = Some payload
      \<and> event_name payload \<notin> set SUPPORTED_EVENTS
    \<longrightarrow> handler pf env req
        = (json_response 200
             (JObj [(''status'', JStr ''ignored''), (''event'', JStr (event_name payload))]), []))
   \<and> (edge_method request = ''POST'' \<and> env_value (TODOIST_CLIENT_SECRET env) \<noteq> []
      \<and> env_value (CAPACITIES_API_TOKEN env) \<noteq> [] \<and> env_value (CAPACITIES_SPACE_ID env) \<noteq> []
      \<and> JSON_parse pf (body_text request) = Some payload
      \<and> event_name payload \<notin> set SUPPORTED_EVENTS
    \<longrightarrow> handler_edge pf env request
        = (json_response 200
             (JObj [(''status'', JStr ''ignored''), (''event'', JStr (event_name payload))]), []))"
  by (simp add: handler_def handler_edge_def Let_def)

text \<open>
  Witness for C9: the event \<^verbatim>\<open>item:archived\<close> of the specification's scenario, signed with
  the configured secret.
\<close>

theorem C9_unsupported_event_ignored_witness:
  "verifyTodoistSignature (getRawBody (signed_request archived_body))
     (getSignatureFromHeaders (headers (signed_request archived_body))) ''secret''
   \<and> ''item:archived'' \<notin> set SUPPORTED_EVENTS
   \<and> handler sample_platform sample_env (signed_request archived_body)
     = (json_response 200 (JObj [(''status'', JStr ''ignored''), (''event'', JStr ''item:archived'')]), [])
   \<and> handler_edge sample_platform sample_env (unsigned_edge_request archived_body)
     = (json_response 200 (JObj [(''status'', JStr ''ignored''), (''event'', JStr ''item:archived'')]), [])"
proof -
  have unsupported: "''item:archived'' \<notin> set SUPPORTED_EVENTS"
    by (simp add: SUPPORTED_EVENTS_def)
  have raw: "getRawBody (signed_request archived_body) = archived_body"
    by (simp add: getRawBody_def signed_request_def)
  have parsed: "JSON_parse sample_platform archived_body = Some (sample_payload ''item:archived'')"
    by (rule sample_platform_parses)
  have name: "event_name (sample_payload ''item:archived'') = ''item:archived''"
    by (simp add: sample_payload_def)
  note inst = C9_unsupported_event_ignored [of "signed_request archived_body" sample_env
      sample_platform "sample_payload ''item:archived''" "unsigned_edge_request archived_body"]
  have "handler sample_platform sample_env (signed_request archived_body)
     = (json_response 200 (JObj [(''status'', JStr ''ignored''), (''event'', JStr ''item:archived'')]), [])"
    using inst signed_request_verified [of archived_body] unsupported
    by (simp add: raw parsed name) (simp add: sample_env_def env_value_def signed_request_def)
  moreover have "handler_edge sample_platform sample_env (unsigned_edge_request archived_body)
     = (json_response 200 (JObj [(''status'', JStr ''ignored''), (''event'', JStr ''item:archived'')]), [])"
    using inst unsupported
    by (simp add: parsed name unsigned_edge_request_def sample_env_def env_value_def)
  ultimately show ?thesis
    using signed_request_verified [of archived_body] unsupported by blast
qed

end
